theory Spec2Isabelle
  imports Main
begin

section \<open>Data model (src/types/index.ts)\<close>

text \<open>
  Text that comes from the user or from a language model is a list of UTF-16 code units
  (\<open>ustring\<close>), which is what \<open>length\<close>, \<open>trim\<close> and the regular expressions of the
  source work on. Identifiers, keys and the messages the program builds itself are
  \<open>string\<close>s. Timestamps are milliseconds since the epoch (\<open>Date.now()\<close>,
  \<open>new Date()\<close>) and are passed to every operation that reads the clock. An optional
  field \<open>f?: T\<close> is a \<open>T option\<close>, \<open>None\<close> standing for \<open>undefined\<close>.
\<close>

type_synonym ustring = "nat list"

definition ascii :: "string \<Rightarrow> ustring" where
  "ascii s = map of_char s"

datatype step = Idle | WaitingTopic | WaitingTitleSelection | OutlineGenerated

datatype task = Titles | Outline | Article

record ArticleTitle =
  title :: ustring
  titleNumber :: ustring

record OutlineInference =
  targetKeyword :: ustring
  targetAudience :: ustring
  contentPurpose :: ustring
  estimatedWordCount :: ustring

record OutlineSection =
  heading :: ustring
  subheadings :: "ustring list option"
  sectionNotes :: "ustring option"

record ArticleOutline =
  inference :: OutlineInference
  outline :: "OutlineSection list"

record ConversationState =
  userId :: string
  chatId :: int
  step :: step
  topic :: "ustring option"
  generatedTitles :: "ArticleTitle list option"
  selectedTitle :: "ustring option"
  generatedOutline :: "ArticleOutline option"
  lastActivity :: int
  isProcessing :: "bool option"
  processingTask :: "task option"
  lockAcquiredAt :: "int option"

text \<open>
  \<open>Partial<ConversationState>\<close>, the argument of \<open>updateConversation\<close>: every property
  may be absent (\<open>None\<close>). A property of an optional field that is present may carry
  \<open>undefined\<close> (\<open>Some None\<close>), which \<open>Object.assign\<close> copies like any other value.
  The property \<open>lastActivity\<close> is left out: \<open>updateConversation\<close> always overwrites it
  with the current time.
\<close>

record ConversationUpdate =
  u_userId :: "string option"
  u_chatId :: "int option"
  u_step :: "step option"
  u_topic :: "ustring option option"
  u_generatedTitles :: "ArticleTitle list option option"
  u_selectedTitle :: "ustring option option"
  u_generatedOutline :: "ArticleOutline option option"
  u_isProcessing :: "bool option option"
  u_processingTask :: "task option option"
  u_lockAcquiredAt :: "int option option"

definition noUpdate :: ConversationUpdate where
  "noUpdate = \<lparr> u_userId = None, u_chatId = None, u_step = None, u_topic = None,
     u_generatedTitles = None, u_selectedTitle = None, u_generatedOutline = None,
     u_isProcessing = None, u_processingTask = None, u_lockAcquiredAt = None \<rparr>"

section \<open>Conversation store (ConversationManager)\<close>

text \<open>
  The manager holds two maps keyed by the conversation key: the conversations and the
  pending lock promises (\<open>LockInfo\<close>, of which only the timestamp is data).
\<close>

record ConversationManager =
  conversations :: "string \<rightharpoonup> ConversationState"
  locks :: "string \<rightharpoonup> int"

definition lockTimeoutMs :: int where
  "lockTimeoutMs = 600000"

definition lockPromiseTimeoutMs :: int where
  "lockPromiseTimeoutMs = 300000"

text \<open>The decimal digits of a number, as a template string renders it.\<close>

definition digit :: "nat \<Rightarrow> char" where
  "digit d = ''0123456789'' ! d"

fun string_of_nat :: "nat \<Rightarrow> string" where
  "string_of_nat n = (if 10 \<le> n then string_of_nat (n div 10) else []) @ [digit (n mod 10)]"

declare string_of_nat.simps [simp del]

definition string_of_int :: "int \<Rightarrow> string" where
  "string_of_int i = (if i < 0 then CHR ''-'' # string_of_nat (nat (- i)) else string_of_nat (nat i))"

text \<open>\<open>getKey\<close>: the template string \<open>`${userId}:${chatId}`\<close>, for an integral chat id.\<close>

definition getKey :: "string \<Rightarrow> int \<Rightarrow> string" where
  "getKey uid cid = uid @ '':'' @ string_of_int cid"

definition newConversation :: "string \<Rightarrow> int \<Rightarrow> int \<Rightarrow> ConversationState" where
  "newConversation uid cid now =
     \<lparr> userId = uid, chatId = cid, step = Idle, topic = None, generatedTitles = None,
       selectedTitle = None, generatedOutline = None, lastActivity = now,
       isProcessing = None, processingTask = None, lockAcquiredAt = None \<rparr>"

text \<open>
  \<open>getConversation\<close> returns the conversation object, which lives in the map: the
  model returns its value after the refresh of \<open>lastActivity\<close> together with the
  manager holding that same value.
\<close>

definition getConversation ::
  "ConversationManager \<Rightarrow> string \<Rightarrow> int \<Rightarrow> int \<Rightarrow> ConversationState \<times> ConversationManager" where
  "getConversation m uid cid now =
     (let key = getKey uid cid;
          conversation = (case conversations m key of
                            None \<Rightarrow> newConversation uid cid now
                          | Some c \<Rightarrow> c);
          conversation' = conversation\<lparr> lastActivity := now \<rparr>
      in (conversation', m\<lparr> conversations := (conversations m)(key \<mapsto> conversation') \<rparr>))"

definition assign :: "'a option \<Rightarrow> 'a \<Rightarrow> 'a" where
  "assign u old = (case u of None \<Rightarrow> old | Some v \<Rightarrow> v)"

text \<open>\<open>Object.assign(conversation, updates, { lastActivity: new Date() })\<close>.\<close>

definition objectAssign :: "ConversationState \<Rightarrow> ConversationUpdate \<Rightarrow> int \<Rightarrow> ConversationState" where
  "objectAssign c u now =
     \<lparr> userId = assign (u_userId u) (userId c),
       chatId = assign (u_chatId u) (chatId c),
       step = assign (u_step u) (step c),
       topic = assign (u_topic u) (topic c),
       generatedTitles = assign (u_generatedTitles u) (generatedTitles c),
       selectedTitle = assign (u_selectedTitle u) (selectedTitle c),
       generatedOutline = assign (u_generatedOutline u) (generatedOutline c),
       lastActivity = now,
       isProcessing = assign (u_isProcessing u) (isProcessing c),
       processingTask = assign (u_processingTask u) (processingTask c),
       lockAcquiredAt = assign (u_lockAcquiredAt u) (lockAcquiredAt c) \<rparr>"

definition updateConversation ::
  "ConversationManager \<Rightarrow> string \<Rightarrow> int \<Rightarrow> ConversationUpdate \<Rightarrow> int \<Rightarrow> ConversationManager" where
  "updateConversation m uid cid updates now =
     (let key = getKey uid cid;
          (conversation, m') = getConversation m uid cid now
      in m'\<lparr> conversations := (conversations m')(key \<mapsto> objectAssign conversation updates now) \<rparr>)"

text \<open>
  \<open>tryAcquireLock\<close>. A pending lock promise for the key is awaited and then deleted;
  from there on the body runs without a suspension point, so the deletion, the check of
  \<open>isProcessing\<close> and the acquisition are one step. \<open>if (conversation.isProcessing)\<close>
  holds exactly for the value \<open>true\<close>.
\<close>

definition tryAcquireLock ::
  "ConversationManager \<Rightarrow> string \<Rightarrow> int \<Rightarrow> task \<Rightarrow> int \<Rightarrow> bool \<times> ConversationManager" where
  "tryAcquireLock m uid cid tsk now =
     (let key = getKey uid cid;
          m1 = m\<lparr> locks := (locks m)(key := None) \<rparr>;
          (conversation, m2) = getConversation m1 uid cid now
      in if isProcessing conversation = Some True then (False, m2)
         else (True, m2\<lparr> conversations := (conversations m2)(key \<mapsto>
                 conversation\<lparr> isProcessing := Some True, processingTask := Some tsk,
                   lockAcquiredAt := Some now, lastActivity := now \<rparr>) \<rparr>))"

definition releaseLock :: "ConversationManager \<Rightarrow> string \<Rightarrow> int \<Rightarrow> int \<Rightarrow> ConversationManager" where
  "releaseLock m uid cid now =
     (let key = getKey uid cid;
          m1 = (case conversations m key of
                  None \<Rightarrow> m
                | Some conversation \<Rightarrow>
                    m\<lparr> conversations := (conversations m)(key \<mapsto>
                        conversation\<lparr> isProcessing := Some False, processingTask := None,
                          lockAcquiredAt := None, lastActivity := now \<rparr>) \<rparr>)
      in m1\<lparr> locks := (locks m1)(key := None) \<rparr>)"

definition resetConversation :: "ConversationManager \<Rightarrow> string \<Rightarrow> int \<Rightarrow> ConversationManager" where
  "resetConversation m uid cid =
     (let key = getKey uid cid
      in m\<lparr> conversations := (conversations m)(key := None), locks := (locks m)(key := None) \<rparr>)"

text \<open>
  The three sweeps visit every entry of a map and treat each entry on its own, so the
  order of the visit does not matter and each sweep is a pointwise change of the maps.
\<close>

definition inactive :: "int \<Rightarrow> ConversationState \<Rightarrow> bool" where
  "inactive now c \<longleftrightarrow> now - lastActivity c > 3600000"

definition cleanup :: "ConversationManager \<Rightarrow> int \<Rightarrow> ConversationManager" where
  "cleanup m now =
     m\<lparr> conversations := (\<lambda>key. case conversations m key of
            None \<Rightarrow> None
          | Some c \<Rightarrow> if inactive now c then None else Some c),
        locks := (\<lambda>key. case conversations m key of
            None \<Rightarrow> locks m key
          | Some c \<Rightarrow> if inactive now c then None else locks m key) \<rparr>"

definition staleLock :: "int \<Rightarrow> ConversationState \<Rightarrow> bool" where
  "staleLock now c \<longleftrightarrow>
     isProcessing c = Some True \<and>
     (case lockAcquiredAt c of None \<Rightarrow> False | Some t \<Rightarrow> now - t > lockTimeoutMs)"

definition cleanupStaleLocks :: "ConversationManager \<Rightarrow> int \<Rightarrow> ConversationManager" where
  "cleanupStaleLocks m now =
     m\<lparr> conversations := (\<lambda>key. case conversations m key of
            None \<Rightarrow> None
          | Some c \<Rightarrow>
              if staleLock now c
              then Some (c\<lparr> isProcessing := Some False, processingTask := None,
                        lockAcquiredAt := None, lastActivity := now \<rparr>)
              else Some c),
        locks := (\<lambda>key. case conversations m key of
            None \<Rightarrow> locks m key
          | Some c \<Rightarrow> if staleLock now c then None else locks m key) \<rparr>"

definition cleanupOldLockPromises :: "ConversationManager \<Rightarrow> int \<Rightarrow> ConversationManager" where
  "cleanupOldLockPromises m now =
     m\<lparr> locks := (\<lambda>key. case locks m key of
            None \<Rightarrow> None
          | Some ts \<Rightarrow> if now - ts > lockPromiseTimeoutMs then None else Some ts) \<rparr>"

definition emptyManager :: ConversationManager where
  "emptyManager = \<lparr> conversations = Map.empty, locks = Map.empty \<rparr>"

text \<open>
  A history of the manager: the calls made on it, each with the time at which it runs.
  \<open>exec\<close> runs one call and gives the value of a \<open>tryAcquireLock\<close>; \<open>results\<close> and
  \<open>run\<close> give the values and the final state of a whole history.
\<close>

datatype event =
    GetConversation string int
  | UpdateConversation string int ConversationUpdate
  | TryAcquireLock string int task
  | ReleaseLock string int
  | ResetConversation string int
  | Cleanup
  | CleanupStaleLocks
  | CleanupOldLockPromises

fun exec :: "ConversationManager \<Rightarrow> int \<times> event \<Rightarrow> bool option \<times> ConversationManager" where
  "exec m (now, GetConversation uid cid) = (None, snd (getConversation m uid cid now))"
| "exec m (now, UpdateConversation uid cid updates) = (None, updateConversation m uid cid updates now)"
| "exec m (now, TryAcquireLock uid cid tsk) =
     (let (r, m') = tryAcquireLock m uid cid tsk now in (Some r, m'))"
| "exec m (now, ReleaseLock uid cid) = (None, releaseLock m uid cid now)"
| "exec m (now, ResetConversation uid cid) = (None, resetConversation m uid cid)"
| "exec m (now, Cleanup) = (None, cleanup m now)"
| "exec m (now, CleanupStaleLocks) = (None, cleanupStaleLocks m now)"
| "exec m (now, CleanupOldLockPromises) = (None, cleanupOldLockPromises m now)"

text \<open>\<open>acquireOf key e\<close>: the call \<open>e\<close> is a \<open>tryAcquireLock\<close> for the key.\<close>

fun acquireOf :: "string \<Rightarrow> event \<Rightarrow> bool" where
  "acquireOf key (TryAcquireLock uid cid tsk) = (getKey uid cid = key)"
| "acquireOf key _ = False"

fun results :: "ConversationManager \<Rightarrow> (int \<times> event) list \<Rightarrow> bool option list" where
  "results m [] = []"
| "results m (e # es) = fst (exec m e) # results (snd (exec m e)) es"

fun run :: "ConversationManager \<Rightarrow> (int \<times> event) list \<Rightarrow> ConversationManager" where
  "run m [] = m"
| "run m (e # es) = run (snd (exec m e)) es"

text \<open>
  \<open>disturbs key m e\<close>: run in state \<open>m\<close>, the call \<open>e\<close> ends or rewrites a lock held on the
  key. These are a \<open>releaseLock\<close> and a \<open>resetConversation\<close> of the key, an
  \<open>updateConversation\<close> of the key whose update assigns one of the processing fields
  \<open>isProcessing\<close>, \<open>processingTask\<close>, \<open>lockAcquiredAt\<close>, the idle sweep when it evicts the
  conversation and the stale-lock sweep when it reclaims it. A history is \<open>undisturbed\<close>
  for the key when none of its calls does so in the state it runs in.
  \<open>heldBy key tsk t m\<close>: the conversation of the key is marked as processing the task
  \<open>tsk\<close> under a lock acquired at \<open>t\<close>.
\<close>

fun disturbs :: "string \<Rightarrow> ConversationManager \<Rightarrow> int \<times> event \<Rightarrow> bool" where
  "disturbs key m (now, ReleaseLock uid cid) = (getKey uid cid = key)"
| "disturbs key m (now, ResetConversation uid cid) = (getKey uid cid = key)"
| "disturbs key m (now, UpdateConversation uid cid updates) =
     (getKey uid cid = key
      \<and> (u_isProcessing updates \<noteq> None \<or> u_processingTask updates \<noteq> None
           \<or> u_lockAcquiredAt updates \<noteq> None))"
| "disturbs key m (now, Cleanup) =
     (case conversations m key of None \<Rightarrow> False | Some c \<Rightarrow> inactive now c)"
| "disturbs key m (now, CleanupStaleLocks) =
     (case conversations m key of None \<Rightarrow> False | Some c \<Rightarrow> staleLock now c)"
| "disturbs key m (now, GetConversation uid cid) = False"
| "disturbs key m (now, TryAcquireLock uid cid tsk) = False"
| "disturbs key m (now, CleanupOldLockPromises) = False"

fun undisturbed :: "string \<Rightarrow> ConversationManager \<Rightarrow> (int \<times> event) list \<Rightarrow> bool" where
  "undisturbed key m [] = True"
| "undisturbed key m (e # es) = (\<not> disturbs key m e \<and> undisturbed key (snd (exec m e)) es)"

definition heldBy :: "string \<Rightarrow> task \<Rightarrow> int \<Rightarrow> ConversationManager \<Rightarrow> bool" where
  "heldBy key tsk t m =
     (case conversations m key of
        None \<Rightarrow> False
      | Some c \<Rightarrow> isProcessing c = Some True \<and> processingTask c = Some tsk \<and> lockAcquiredAt c = Some t)"

text \<open>A history and a conversation for the instances below.\<close>

definition busyHistory :: "(int \<times> event) list" where
  "busyHistory =
     [(1, TryAcquireLock ''42'' 7 Outline),
      (2, UpdateConversation ''42'' 7 (noUpdate\<lparr> u_step := Some WaitingTitleSelection \<rparr>)),
      (3, GetConversation ''42'' 7), (4, CleanupStaleLocks), (5, Cleanup),
      (6, TryAcquireLock ''42'' 7 Article)]"

definition heldConversation :: ConversationState where
  "heldConversation =
     \<lparr> userId = ''42'', chatId = 7, step = WaitingTitleSelection, topic = Some (ascii ''static site hosting''),
       generatedTitles = Some [\<lparr> title = ascii ''Ten hosts compared'', titleNumber = ascii ''1'' \<rparr>],
       selectedTitle = None, generatedOutline = None, lastActivity = 1000,
       isProcessing = Some True, processingTask = Some Titles, lockAcquiredAt = Some 1000 \<rparr>"

section \<open>Rate limiter (src/utils/rateLimiter.ts)\<close>

text \<open>
  The limiter's table maps a user to the window the user is in. \<open>checkLimit\<close> reads the
  two settings \<open>config.rateLimit.enabled\<close> and \<open>config.rateLimit.maxRequestsPerMinute\<close>
  and the clock, and changes the entry of the user in place; the model gives the answer
  and the table afterwards. \<open>cleanupLimits\<close> is the limiter's \<open>cleanup\<close>.
\<close>

record RateLimitInfo =
  rl_userId :: string
  requestCount :: nat
  windowStart :: int

record RateLimitConfig =
  enabled :: bool
  maxRequestsPerMinute :: nat

record LimitResult =
  allowed :: bool
  retryAfter :: "int option"

definition windowDuration :: int where
  "windowDuration = 60000"

text \<open>\<open>Math.ceil(x / 1000)\<close> for an integral number of milliseconds.\<close>

definition ceilSeconds :: "int \<Rightarrow> int" where
  "ceilSeconds x = - ((- x) div 1000)"

definition checkLimit ::
  "RateLimitConfig \<Rightarrow> (string \<rightharpoonup> RateLimitInfo) \<Rightarrow> string \<Rightarrow> int
     \<Rightarrow> LimitResult \<times> (string \<rightharpoonup> RateLimitInfo)" where
  "checkLimit cfg limits uid now =
     (if \<not> enabled cfg then (\<lparr> allowed = True, retryAfter = None \<rparr>, limits)
      else
        let userLimit = (case limits uid of
                           None \<Rightarrow> \<lparr> rl_userId = uid, requestCount = 0, windowStart = now \<rparr>
                         | Some l \<Rightarrow> l);
            userLimit' = (if now - windowStart userLimit \<ge> windowDuration
                          then userLimit\<lparr> requestCount := 0, windowStart := now \<rparr>
                          else userLimit)
        in if requestCount userLimit' \<ge> maxRequestsPerMinute cfg
           then (\<lparr> allowed = False,
                   retryAfter = Some (ceilSeconds (windowDuration - (now - windowStart userLimit'))) \<rparr>,
                 limits(uid \<mapsto> userLimit'))
           else (\<lparr> allowed = True, retryAfter = None \<rparr>,
                 limits(uid \<mapsto> userLimit'\<lparr> requestCount := requestCount userLimit' + 1 \<rparr>)))"

definition resetLimit :: "(string \<rightharpoonup> RateLimitInfo) \<Rightarrow> string \<Rightarrow> (string \<rightharpoonup> RateLimitInfo)" where
  "resetLimit limits uid = limits(uid := None)"

definition cleanupLimits :: "(string \<rightharpoonup> RateLimitInfo) \<Rightarrow> int \<Rightarrow> (string \<rightharpoonup> RateLimitInfo)" where
  "cleanupLimits limits now =
     (\<lambda>uid. case limits uid of
        None \<Rightarrow> None
      | Some l \<Rightarrow> if now - windowStart l \<ge> windowDuration * 2 then None else Some l)"

text \<open>The calls of one user at the given times, in order.\<close>

fun checkLimits ::
  "RateLimitConfig \<Rightarrow> (string \<rightharpoonup> RateLimitInfo) \<Rightarrow> string \<Rightarrow> int list
     \<Rightarrow> LimitResult list \<times> (string \<rightharpoonup> RateLimitInfo)" where
  "checkLimits cfg limits uid [] = ([], limits)"
| "checkLimits cfg limits uid (t # ts) =
     (let (r, limits') = checkLimit cfg limits uid t;
          (rs, limits'') = checkLimits cfg limits' uid ts
      in (r # rs, limits''))"

text \<open>The user has no open window at time \<open>t\<close>: no entry, or an entry whose window is over.\<close>

definition noOpenWindow :: "(string \<rightharpoonup> RateLimitInfo) \<Rightarrow> string \<Rightarrow> int \<Rightarrow> bool" where
  "noOpenWindow limits uid t =
     (case limits uid of None \<Rightarrow> True | Some l \<Rightarrow> t - windowStart l \<ge> windowDuration)"

section \<open>Provider router (AIRouter)\<close>

datatype provider = Claude | OpenRouter

fun providerName :: "provider \<Rightarrow> string" where
  "providerName Claude = ''claude''"
| "providerName OpenRouter = ''openrouter''"

datatype jsError = Error string

fun message :: "jsError \<Rightarrow> string" where
  "message (Error msg) = msg"

record 'a Completion =
  data :: 'a
  tokensUsed :: nat
  inputTokens :: nat
  outputTokens :: nat

record 'a AIResponse = "'a Completion" +
  provider :: provider
  cached :: bool
  processingTime :: int

record RouterConfig =
  defaultProvider :: provider
  backupAI :: bool
  titleMaxTokens :: nat
  outlineMaxTokens :: nat
  articleMaxTokens :: nat
  aiRequestTimeout :: nat
  aiTitleTimeout :: "nat option"
  aiOutlineTimeout :: "nat option"
  aiArticleTimeout :: "nat option"

datatype taskType = TitlesTask | OutlineTask | ArticleTask

fun getMaxTokens :: "RouterConfig \<Rightarrow> taskType \<Rightarrow> nat" where
  "getMaxTokens config TitlesTask = titleMaxTokens config"
| "getMaxTokens config OutlineTask = outlineMaxTokens config"
| "getMaxTokens config ArticleTask = articleMaxTokens config"

text \<open>A task timeout that is unset or 0 is falsy and gives way to the default.\<close>

definition truthyOr :: "nat option \<Rightarrow> nat \<Rightarrow> nat" where
  "truthyOr v d = (case v of None \<Rightarrow> d | Some n \<Rightarrow> if n = 0 then d else n)"

fun getTimeout :: "RouterConfig \<Rightarrow> taskType \<Rightarrow> nat" where
  "getTimeout config TitlesTask = truthyOr (aiTitleTimeout config) (aiRequestTimeout config)"
| "getTimeout config OutlineTask = truthyOr (aiOutlineTimeout config) (aiRequestTimeout config)"
| "getTimeout config ArticleTask = truthyOr (aiArticleTimeout config) (aiRequestTimeout config)"

text \<open>
  What a request does to the outside world, in order: a call of a provider's
  \<open>generateJSONCompletion\<close> with its token budget and its timeout, or a pause of so many
  milliseconds. The outside world is a function \<open>env\<close>: \<open>env p k\<close> is what the call
  number \<open>k\<close> (from 0) to provider \<open>p\<close> within the request comes to, a result or the error
  thrown.
\<close>

datatype routerEffect = Call provider nat nat | Sleep nat

type_synonym 'a providers = "provider \<Rightarrow> nat \<Rightarrow> jsError + 'a Completion"

text \<open>
  \<open>String.prototype.toLowerCase\<close> is a function of the language's library, which maps
  letters of many scripts; the router takes it as the parameter \<open>lower\<close>. On a text
  made of ASCII characters only it changes the letters A to Z and nothing else, which is
  \<open>asciiLower\<close>; the instances below, whose messages are such texts, use it.
  \<open>includesSub\<close> is \<open>String.prototype.includes\<close>.
\<close>

definition asciiLowerChar :: "char \<Rightarrow> char" where
  "asciiLowerChar c =
     (case map_of (zip ''ABCDEFGHIJKLMNOPQRSTUVWXYZ'' ''abcdefghijklmnopqrstuvwxyz'') c of
        Some l \<Rightarrow> l
      | None \<Rightarrow> c)"

definition asciiLower :: "string \<Rightarrow> string" where
  "asciiLower s = map asciiLowerChar s"

fun startsWith :: "'a list \<Rightarrow> 'a list \<Rightarrow> bool" where
  "startsWith s [] = True"
| "startsWith [] (p # ps) = False"
| "startsWith (c # cs) (p # ps) = (c = p \<and> startsWith cs ps)"

fun includesSub :: "'a list \<Rightarrow> 'a list \<Rightarrow> bool" where
  "includesSub [] sub = (sub = [])"
| "includesSub (c # cs) sub = (startsWith (c # cs) sub \<or> includesSub cs sub)"


definition isTransientError :: "(string \<Rightarrow> string) \<Rightarrow> string \<Rightarrow> bool" where
  "isTransientError lower msg =
     (let errorMsg = lower msg;
          isConnectionError = includesSub errorMsg ''connection'';
          isTerminatedError = includesSub errorMsg ''terminated'' \<or> includesSub errorMsg ''socket'';
          isRateLimitError = includesSub errorMsg ''rate limit'' \<or> includesSub errorMsg ''429'';
          isServerError = includesSub errorMsg ''500'' \<or> includesSub errorMsg ''502'' \<or> includesSub errorMsg ''503''
      in isConnectionError \<or> isTerminatedError \<or> isRateLimitError \<or> isServerError)"

text \<open>The message of the TypeError that reading \<open>.message\<close> of \<open>undefined\<close> throws.\<close>

definition undefinedMessage :: jsError where
  "undefinedMessage =
     Error (''Cannot read properties of undefined (reading '' @ [CHR 0x27] @ ''message''
            @ [CHR 0x27] @ '')'')"

text \<open>
  \<open>tryProviderWithRetry\<close>: the loop \<open>for (attempt = 1; attempt <= maxRetries; attempt++)\<close>,
  entered at \<open>attempt\<close> with the last error so far.
\<close>

function retryLoop ::
  "'a providers \<Rightarrow> provider \<Rightarrow> nat \<Rightarrow> nat \<Rightarrow> nat \<Rightarrow> nat \<Rightarrow> jsError option
     \<Rightarrow> routerEffect list \<times> (jsError + 'a Completion)" where
  "retryLoop env p maxTokens timeout maxRetries attempt lastError =
     (if attempt \<le> maxRetries
      then (case env p (attempt - 1) of
              Inr result \<Rightarrow> ([Call p maxTokens timeout], Inr result)
            | Inl error \<Rightarrow>
                (let (effects, r) = retryLoop env p maxTokens timeout maxRetries (attempt + 1) (Some error)
                 in (Call p maxTokens timeout
                       # (if attempt < maxRetries then [Sleep (2 ^ attempt * 1000)] else [])
                       @ effects, r)))
      else ([], Inl (case lastError of Some error \<Rightarrow> error | None \<Rightarrow> undefinedMessage)))"
  by pat_completeness auto
termination
  by (relation "measure (\<lambda>(env, p, maxTokens, timeout, maxRetries, attempt, lastError). maxRetries + 1 - attempt)") auto

declare retryLoop.simps [simp del]

definition tryProviderWithRetry ::
  "'a providers \<Rightarrow> provider \<Rightarrow> nat \<Rightarrow> nat \<Rightarrow> nat \<Rightarrow> routerEffect list \<times> (jsError + 'a Completion)" where
  "tryProviderWithRetry env p maxTokens timeout maxRetries =
     retryLoop env p maxTokens timeout maxRetries 1 None"

text \<open>
  \<open>tryPrimaryProvider\<close>: the loop \<open>for (attempt = 1; attempt <= 2; attempt++)\<close>. The value
  \<open>None\<close> is the \<open>null\<close> returned after the loop.
\<close>

function primaryLoop ::
  "(string \<Rightarrow> string) \<Rightarrow> 'a providers \<Rightarrow> provider \<Rightarrow> nat \<Rightarrow> nat \<Rightarrow> nat
     \<Rightarrow> routerEffect list \<times> (jsError + 'a Completion option)" where
  "primaryLoop lower env p maxTokens timeout attempt =
     (if attempt \<le> 2
      then (case env p (attempt - 1) of
              Inr result \<Rightarrow> ([Call p maxTokens timeout], Inr (Some result))
            | Inl error \<Rightarrow>
                if attempt = 1 \<and> isTransientError lower (message error)
                then (let (effects, r) = primaryLoop lower env p maxTokens timeout (attempt + 1)
                      in (Call p maxTokens timeout # Sleep 2000 # effects, r))
                else ([Call p maxTokens timeout], Inl error))
      else ([], Inr None))"
  by pat_completeness auto
termination
  by (relation "measure (\<lambda>(lower, env, p, maxTokens, timeout, attempt). 3 - attempt)") auto

declare primaryLoop.simps [simp del]

definition tryPrimaryProvider ::
  "(string \<Rightarrow> string) \<Rightarrow> 'a providers \<Rightarrow> provider \<Rightarrow> nat \<Rightarrow> nat \<Rightarrow> routerEffect list \<times> (jsError + 'a Completion option)" where
  "tryPrimaryProvider lower env p maxTokens timeout = primaryLoop lower env p maxTokens timeout 1"

definition respond :: "'a Completion \<Rightarrow> provider \<Rightarrow> int \<Rightarrow> 'a AIResponse" where
  "respond result p elapsed =
     \<lparr> data = data result, tokensUsed = tokensUsed result, inputTokens = inputTokens result,
       outputTokens = outputTokens result, provider = p, cached = False, processingTime = elapsed \<rparr>"

definition combinedError :: "provider \<Rightarrow> jsError \<Rightarrow> provider \<Rightarrow> jsError \<Rightarrow> jsError" where
  "combinedError primaryProvider primaryError backupProvider backupError =
     Error (''All AI providers failed. '' @ providerName primaryProvider @ '': '' @ message primaryError
            @ '', '' @ providerName backupProvider @ '': '' @ message backupError)"

text \<open>
  \<open>generateJSON\<close>. \<open>lower\<close> is \<open>toLowerCase\<close>; \<open>elapsed\<close> is the clock's \<open>Date.now() - startTime\<close> at the time of the
  answer. \<open>primaryError\<close> stays \<open>undefined\<close> when the primary path returns \<open>null\<close>, and
  reading its message then throws.
\<close>

definition generateJSON ::
  "(string \<Rightarrow> string) \<Rightarrow> RouterConfig \<Rightarrow> 'a providers \<Rightarrow> taskType \<Rightarrow> int \<Rightarrow> routerEffect list \<times> (jsError + 'a AIResponse)" where
  "generateJSON lower config env taskType elapsed =
     (let primaryProvider = defaultProvider config;
          backupProvider = (if primaryProvider = Claude then OpenRouter else Claude);
          maxTokens = getMaxTokens config taskType;
          timeout = getTimeout config taskType;
          (effects1, r1) = tryPrimaryProvider lower env primaryProvider maxTokens timeout
      in case r1 of
           Inr (Some result) \<Rightarrow> (effects1, Inr (respond result primaryProvider elapsed))
         | _ \<Rightarrow>
           (let primaryError = (case r1 of Inl error \<Rightarrow> Some error | Inr _ \<Rightarrow> None)
            in if backupAI config
               then (let (effects2, r2) = tryProviderWithRetry env backupProvider maxTokens timeout 3
                     in case r2 of
                          Inr backupResult \<Rightarrow>
                            (effects1 @ effects2, Inr (respond backupResult backupProvider elapsed))
                        | Inl backupError \<Rightarrow>
                            (effects1 @ effects2,
                             Inl (case primaryError of
                                    Some error \<Rightarrow> combinedError primaryProvider error backupProvider backupError
                                  | None \<Rightarrow> undefinedMessage)))
               else (effects1, Inl (case primaryError of Some error \<Rightarrow> error | None \<Rightarrow> undefinedMessage))))"



definition defaultConfig :: RouterConfig where
  "defaultConfig =
     \<lparr> defaultProvider = Claude, backupAI = True, titleMaxTokens = 2000, outlineMaxTokens = 8000,
       articleMaxTokens = 25000, aiRequestTimeout = 600000, aiTitleTimeout = Some 180000,
       aiOutlineTimeout = Some 360000, aiArticleTimeout = Some 600000 \<rparr>"




text \<open>A primary with a rejected key and a backup out of credit.\<close>

definition bothDown :: "unit providers" where
  "bothDown p k = (case p of
      Claude \<Rightarrow> Inl (Error ''Claude API error: 401 invalid x-api-key'')
    | OpenRouter \<Rightarrow> Inl (Error ''OpenRouter API error: 402''))"

section \<open>Delivery sender (src/utils/webhook.ts, src/utils/retry.ts)\<close>

text \<open>
  A JavaScript value as far as the payload check looks at it. An object is the list of
  its properties; a property that is not there reads as \<open>undefined\<close>.
\<close>

datatype jsval =
    JUndefined
  | JNull
  | JBool bool
  | JNum int
  | JStr ustring
  | JArr "jsval list"
  | JObj "(string \<times> jsval) list"

fun truthy :: "jsval \<Rightarrow> bool" where
  "truthy JUndefined = False"
| "truthy JNull = False"
| "truthy (JBool b) = b"
| "truthy (JNum n) = (n \<noteq> 0)"
| "truthy (JStr s) = (s \<noteq> [])"
| "truthy (JArr xs) = True"
| "truthy (JObj kvs) = True"

text \<open>\<open>typeof v === 'object'\<close>.\<close>

fun typeofObject :: "jsval \<Rightarrow> bool" where
  "typeofObject JNull = True"
| "typeofObject (JArr xs) = True"
| "typeofObject (JObj kvs) = True"
| "typeofObject _ = False"

text \<open>
  \<open>v.name\<close> for the property names \<open>outline\<close> and \<open>article\<close>, which only an object can
  have, read on a value that is neither \<open>null\<close> nor \<open>undefined\<close>.
\<close>

fun getProp :: "jsval \<Rightarrow> string \<Rightarrow> jsval" where
  "getProp (JObj kvs) name = (case map_of kvs name of Some v \<Rightarrow> v | None \<Rightarrow> JUndefined)"
| "getProp _ name = JUndefined"

record WebhookPayload =
  wp_type :: string
  wp_data :: jsval
  wp_userId :: string
  wp_chatId :: int

definition quoted :: "string \<Rightarrow> string" where
  "quoted s = CHR 0x22 # s @ [CHR 0x22]"

text \<open>
  \<open>validateWebhookPayload\<close> for a payload of the declared type: \<open>payload\<close> itself is an
  object, \<open>userId\<close> a string and \<open>chatId\<close> a number. \<open>Inl\<close> is the error thrown.
\<close>

definition validateWebhookPayload :: "WebhookPayload \<Rightarrow> jsError + unit" where
  "validateWebhookPayload payload =
     (if wp_type payload = [] \<or> (wp_type payload \<noteq> ''outline'' \<and> wp_type payload \<noteq> ''article'')
      then Inl (Error (''Invalid payload type. Must be '' @ quoted ''outline'' @ '' or '' @ quoted ''article''))
      else if \<not> truthy (wp_data payload)
      then Inl (Error ''Payload data is null or undefined'')
      else if wp_userId payload = []
      then Inl (Error ''Invalid userId in payload'')
      else if wp_chatId payload = 0
      then Inl (Error ''Invalid chatId in payload'')
      else if wp_type payload = ''outline''
      then (if \<not> truthy (getProp (wp_data payload) ''outline'')
               \<or> \<not> typeofObject (getProp (wp_data payload) ''outline'')
            then Inl (Error ''Invalid outline data structure'')
            else Inr ())
      else if wp_type payload = ''article''
      then (if \<not> truthy (getProp (wp_data payload) ''article'')
               \<or> \<not> typeofObject (getProp (wp_data payload) ''article'')
            then Inl (Error ''Invalid article data structure'')
            else Inr ())
      else Inr ())"

text \<open>
  What a delivery or the dialogue controller does to the outside world: an HTTP POST of
  a body to a URL, a pause of so many milliseconds, a message sent to a chat, a typing
  indicator, a call of the title stage of the content pipeline. The messages are told
  apart by their template and carry the values that fill it; \<open>topicError\<close> tells apart
  the three messages of \<open>validateTopic\<close>.
\<close>

datatype topicError = TopicEmpty | TopicTooShort | TopicTooLong

datatype notice =
    InvalidPayloadNotice string string
  | DeliveryFailedNotice string string nat string
  | TopicRejected topicError
  | AlreadyProcessing "task option"
  | GeneratingTitles ustring
  | TitlesReady "ArticleTitle list" provider nat
  | GenerationTimedOut nat

datatype effect =
    Post string jsval
  | Delay nat
  | SendMessage int notice
  | SendTypingAction int
  | GenerateTitles ustring string

text \<open>
  What \<open>axios.post\<close> comes to: a response with its status, or a rejection with its
  \<open>code\<close>, the status of its \<open>response\<close> if it has one, and its message.
\<close>

datatype axiosOutcome =
    Response int
  | Rejected "string option" "int option" string

record RetryOptions =
  maxRetries :: "nat option"
  baseDelay :: "nat option"
  maxDelay :: "nat option"
  taskName :: "string option"

text \<open>
  \<open>withRetry\<close>: the loop \<open>for (attempt = 0; attempt <= maxRetries; attempt++)\<close>, entered at
  \<open>attempt\<close> with the last error so far. \<open>fn k\<close> is what invocation number \<open>k\<close> of the
  retried function does and comes to.
\<close>

function withRetryLoop ::
  "(nat \<Rightarrow> effect list \<times> (jsError + 'a)) \<Rightarrow> nat \<Rightarrow> nat \<Rightarrow> nat \<Rightarrow> string \<Rightarrow> nat \<Rightarrow> jsError option
     \<Rightarrow> effect list \<times> (jsError + 'a)" where
  "withRetryLoop fn maxR baseD maxD name attempt lastError =
     (if attempt \<le> maxR
      then (let (effects, r) = fn attempt
            in case r of
                 Inr v \<Rightarrow> (effects, Inr v)
               | Inl error \<Rightarrow>
                   (let delay = (if baseD = maxD then baseD else min (baseD * 2 ^ attempt) maxD);
                        (effects', r') = withRetryLoop fn maxR baseD maxD name (attempt + 1) (Some error)
                    in (effects @ (if attempt < maxR then [Delay delay] else []) @ effects', r')))
      else ([], Inl (case lastError of
                       Some error \<Rightarrow> error
                     | None \<Rightarrow> Error (name @ '' failed after '' @ string_of_nat (maxR + 1) @ '' attempts''))))"
  by pat_completeness auto
termination
  by (relation "measure (\<lambda>(fn, maxR, baseD, maxD, name, attempt, lastError). maxR + 1 - attempt)") auto

declare withRetryLoop.simps [simp del]

definition orDefault :: "'a option \<Rightarrow> 'a \<Rightarrow> 'a" where
  "orDefault v d = (case v of None \<Rightarrow> d | Some x \<Rightarrow> x)"

definition withRetry ::
  "(nat \<Rightarrow> effect list \<times> (jsError + 'a)) \<Rightarrow> RetryOptions \<Rightarrow> effect list \<times> (jsError + 'a)" where
  "withRetry fn options =
     withRetryLoop fn (orDefault (maxRetries options) 3) (orDefault (baseDelay options) 3000)
       (orDefault (maxDelay options) 3000) (orDefault (taskName options) ''operation'') 0 None"

text \<open>
  The function that \<open>sendWebhookWithRetry\<close> retries, and \<open>rethrow\<close>, its handler for
  what the request throws: a refused connection and a timeout get a message of their
  own, anything else is thrown on as it is. The error thrown for a status other than 200
  is caught by this same handler, which throws it on, having neither a \<open>code\<close> nor a
  \<open>response\<close>.
\<close>

definition rethrow :: "string option \<Rightarrow> int option \<Rightarrow> string \<Rightarrow> jsError" where
  "rethrow code response msg =
     (if code = Some ''ECONNREFUSED'' then Error ''Webhook server connection refused''
      else if code = Some ''ETIMEDOUT'' \<or> code = Some ''ECONNABORTED'' then Error ''Webhook request timeout''
      else if response \<noteq> None then Error msg
      else Error msg)"

definition webhookAttempt ::
  "string \<Rightarrow> WebhookPayload \<Rightarrow> (nat \<Rightarrow> axiosOutcome) \<Rightarrow> nat \<Rightarrow> effect list \<times> (jsError + int)" where
  "webhookAttempt url payload post k =
     ([Post url (wp_data payload)],
      case post k of
        Response status \<Rightarrow>
          if status \<noteq> 200
          then Inl (rethrow None None (''Webhook failed with status code '' @ string_of_int status))
          else Inr status
      | Rejected code response msg \<Rightarrow> Inl (rethrow code response msg))"

text \<open>The task name given to \<open>withRetry\<close>, in UTF-8: the Vietnamese for "send webhook".\<close>

definition sendTaskName :: "string \<Rightarrow> string" where
  "sendTaskName name = ''G'' @ [CHR 0xE1, CHR 0xBB, CHR 0xAD] @ ''i webhook '' @ name"

definition sendWebhookWithRetry ::
  "string \<Rightarrow> WebhookPayload \<Rightarrow> string \<Rightarrow> int \<Rightarrow> (nat \<Rightarrow> axiosOutcome) \<Rightarrow> effect list \<times> (jsError + unit)" where
  "sendWebhookWithRetry url payload name chat post =
     (case validateWebhookPayload payload of
        Inl validationError \<Rightarrow>
          ([SendMessage chat (InvalidPayloadNotice name (message validationError))],
           Inl (Error (''Invalid webhook payload: '' @ message validationError)))
      | Inr _ \<Rightarrow>
          (let (effects, r) = withRetry (webhookAttempt url payload post)
                 \<lparr> maxRetries = Some 3, baseDelay = Some 3000, maxDelay = Some 3000,
                   taskName = Some (sendTaskName name) \<rparr>
           in case r of
                Inr response \<Rightarrow> (effects, Inr ())
              | Inl error \<Rightarrow>
                  (effects @ [SendMessage chat (DeliveryFailedNotice name url 3 (message error))],
                   Inr ())))"

text \<open>
  Modelled from the spec: the envelope that section 6 documents for the body of a
  delivery, an object with the \<open>type\<close> tag, the \<open>data\<close> for that type, the \<open>userId\<close>
  string and the numeric \<open>chatId\<close>. The repository's README documents the same
  envelope as what the receiver gets, with the outline under \<open>data.outline\<close> and the
  article under \<open>data.article\<close>.
\<close>

fun isString :: "jsval \<Rightarrow> bool" where
  "isString (JStr s) = True"
| "isString _ = False"

fun isNumber :: "jsval \<Rightarrow> bool" where
  "isNumber (JNum n) = True"
| "isNumber _ = False"

fun isObject :: "jsval \<Rightarrow> bool" where
  "isObject (JObj kvs) = True"
| "isObject _ = False"

definition documentedEnvelope :: "jsval \<Rightarrow> bool" where
  "documentedEnvelope body =
     (isObject body
      \<and> ((getProp body ''type'' = JStr (ascii ''outline'')
             \<and> isObject (getProp (getProp body ''data'') ''outline''))
          \<or> (getProp body ''type'' = JStr (ascii ''article'')
             \<and> isObject (getProp (getProp body ''data'') ''article'')))
      \<and> isString (getProp body ''userId'')
      \<and> isNumber (getProp body ''chatId''))"

text \<open>The body as the envelope would have it, for comparison.\<close>

definition envelopeOf :: "WebhookPayload \<Rightarrow> jsval" where
  "envelopeOf payload =
     JObj [(''type'', JStr (ascii (wp_type payload))), (''data'', wp_data payload),
           (''userId'', JStr (ascii (wp_userId payload))), (''chatId'', JNum (wp_chatId payload))]"

text \<open>
  The payload for an outline as \<open>handleTitleSelection\<close> builds it: the data repeat the
  type, the user and the chat beside the outline itself.
\<close>

definition outlinePayload :: WebhookPayload where
  "outlinePayload =
     \<lparr> wp_type = ''outline'',
       wp_data = JObj [(''type'', JStr (ascii ''outline'')), (''userId'', JStr (ascii ''42'')),
                       (''chatId'', JNum 7), (''topic'', JStr (ascii ''static site hosting'')),
                       (''selectedTitle'', JStr (ascii ''Ten hosts compared'')),
                       (''outline'', JObj [(''inference'', JObj []), (''outline'', JArr [])]),
                       (''metadata'', JObj [(''provider'', JStr (ascii ''claude''))])],
       wp_userId = ''42'', wp_chatId = 7 \<rparr>"

definition hook :: string where
  "hook = ''https://hooks.example/in''"

text \<open>
  A receiver that answers 200, one that answers 500 (which \<open>axios\<close> turns into a rejection
  that carries the response), one that refuses the connection.
\<close>

definition accepting :: "nat \<Rightarrow> axiosOutcome" where
  "accepting k = Response 200"

definition failing :: "nat \<Rightarrow> axiosOutcome" where
  "failing k = Rejected (Some ''ERR_BAD_RESPONSE'') (Some 500) ''Request failed with status code 500''"

definition refusing :: "nat \<Rightarrow> axiosOutcome" where
  "refusing k = Rejected (Some ''ECONNREFUSED'') None ''connect ECONNREFUSED''"

text \<open>An attempt succeeds on a response with status 200 and on nothing else.\<close>

definition succeeded :: "axiosOutcome \<Rightarrow> bool" where
  "succeeded outcome = (outcome = Response 200)"

text \<open>The error that a failed attempt throws.\<close>

definition thrownBy :: "axiosOutcome \<Rightarrow> jsError" where
  "thrownBy outcome =
     (case outcome of
        Response status \<Rightarrow> Error (''Webhook failed with status code '' @ string_of_int status)
      | Rejected code response msg \<Rightarrow> rethrow code response msg)"

fun posts :: "effect list \<Rightarrow> (string \<times> jsval) list" where
  "posts [] = []"
| "posts (Post url body # es) = (url, body) # posts es"
| "posts (e # es) = posts es"

fun notifications :: "effect list \<Rightarrow> (int \<times> notice) list" where
  "notifications [] = []"
| "notifications (SendMessage chat n # es) = (chat, n) # notifications es"
| "notifications (e # es) = notifications es"

section \<open>Provider client: structured output (ClaudeService.parseJSONResponse)\<close>

text \<open>
  The white space of JavaScript, which \<open>String.prototype.trim\<close> strips and \<open>\s\<close> matches:
  the characters WhiteSpace and LineTerminator of the language, as code units.
\<close>

definition isWhiteSpace :: "nat \<Rightarrow> bool" where
  "isWhiteSpace c \<longleftrightarrow>
     c \<in> {9, 10, 11, 12, 13, 32, 160, 5760, 8232, 8233, 8239, 8287, 12288, 65279}
     \<or> (8192 \<le> c \<and> c \<le> 8202)"

definition trim :: "ustring \<Rightarrow> ustring" where
  "trim s = rev (dropWhile isWhiteSpace (rev (dropWhile isWhiteSpace s)))"

text \<open>The first index at which \<open>sub\<close> occurs in \<open>s\<close> (\<open>indexOf\<close>), and the last index of a code unit.\<close>

fun findSub :: "'a list \<Rightarrow> 'a list \<Rightarrow> nat option" where
  "findSub [] sub = (if sub = [] then Some 0 else None)"
| "findSub (c # cs) sub =
     (if startsWith (c # cs) sub then Some 0 else map_option Suc (findSub cs sub))"

definition indexOf :: "'a list \<Rightarrow> 'a \<Rightarrow> nat option" where
  "indexOf s c = findSub s [c]"

definition lastIndexOf :: "'a list \<Rightarrow> 'a \<Rightarrow> nat option" where
  "lastIndexOf s c = map_option (\<lambda>i. length s - 1 - i) (findSub (rev s) [c])"

text \<open>\<open>s.substring(a, b)\<close> for \<open>a \<le> b\<close>.\<close>

definition substring :: "'a list \<Rightarrow> nat \<Rightarrow> nat \<Rightarrow> 'a list" where
  "substring s a b = take (b - a) (drop a s)"

definition fence :: ustring where
  "fence = ascii ''```''"

definition fenceJson :: ustring where
  "fenceJson = ascii ''```json''"

text \<open>
  The first group of a match of \<open>opening\s*([\s\S]*?)\s*```\<close> in \<open>content\<close>, for an
  \<open>opening\<close> that is one of the two fences. White space holds no backtick, so the pattern
  matches from an occurrence of the opening exactly if a fence occurs somewhere after it;
  if none occurs after the first opening, none occurs after a later one. The lazy group
  then runs from the end of the white space after the opening to the start of the white
  space before the first such fence: it is the text between the two, trimmed.
\<close>

definition fenceMatch :: "ustring \<Rightarrow> ustring \<Rightarrow> ustring option" where
  "fenceMatch opening content =
     (case findSub content opening of
        None \<Rightarrow> None
      | Some i \<Rightarrow>
          (let rest = drop (i + length opening) content
           in case findSub rest fence of
                None \<Rightarrow> None
              | Some r \<Rightarrow> Some (trim (take r rest))))"

text \<open>\<open>content.match(/```json.../) || content.match(/```.../)\<close>, then \<open>codeBlockMatch[1]\<close>.\<close>

definition codeBlockMatch :: "ustring \<Rightarrow> ustring option" where
  "codeBlockMatch content =
     (case fenceMatch fenceJson content of
        Some g \<Rightarrow> Some g
      | None \<Rightarrow> fenceMatch fence content)"

text \<open>
  The four strategies. \<open>parse\<close> is \<open>JSON.parse\<close>: it gives the value, or the message of
  the error it throws. A strategy gives the value it parsed, or the entry it adds to
  \<open>errors\<close>.
\<close>

definition strategy1 :: "(ustring \<Rightarrow> ustring + 'v) \<Rightarrow> ustring \<Rightarrow> ustring + 'v" where
  "strategy1 parse content =
     (case codeBlockMatch content of
        Some g \<Rightarrow> (case parse (trim g) of
                     Inr v \<Rightarrow> Inr v
                   | Inl m \<Rightarrow> Inl (ascii ''Strategy 1: '' @ m))
      | None \<Rightarrow> Inl (ascii ''Strategy 1: No code block found''))"

definition strategy2 :: "(ustring \<Rightarrow> ustring + 'v) \<Rightarrow> ustring \<Rightarrow> ustring + 'v" where
  "strategy2 parse content =
     (case parse (trim content) of
        Inr v \<Rightarrow> Inr v
      | Inl m \<Rightarrow> Inl (ascii ''Strategy 2: '' @ m))"

text \<open>The text from the first \<open>opening\<close> to the last \<open>closing\<close>, if the last comes after the first.\<close>

definition between :: "nat \<Rightarrow> nat \<Rightarrow> ustring \<Rightarrow> ustring option" where
  "between opening closing content =
     (case (indexOf content opening, lastIndexOf content closing) of
        (Some firstIndex, Some lastIndex) \<Rightarrow>
          if lastIndex > firstIndex then Some (substring content firstIndex (lastIndex + 1)) else None
      | _ \<Rightarrow> None)"

definition strategy3 :: "(ustring \<Rightarrow> ustring + 'v) \<Rightarrow> ustring \<Rightarrow> ustring + 'v" where
  "strategy3 parse content =
     (case between 123 125 content of
        Some jsonString \<Rightarrow> (case parse jsonString of
                              Inr v \<Rightarrow> Inr v
                            | Inl m \<Rightarrow> Inl (ascii ''Strategy 3: '' @ m))
      | None \<Rightarrow> Inl (ascii ''Strategy 3: No valid braces found''))"

definition strategy4 :: "(ustring \<Rightarrow> ustring + 'v) \<Rightarrow> ustring \<Rightarrow> ustring + 'v" where
  "strategy4 parse content =
     (case between 91 93 content of
        Some jsonString \<Rightarrow> (case parse jsonString of
                              Inr v \<Rightarrow> Inr v
                            | Inl m \<Rightarrow> Inl (ascii ''Strategy 4: '' @ m))
      | None \<Rightarrow> Inl (ascii ''Strategy 4: No valid brackets found''))"

fun join :: "ustring \<Rightarrow> ustring list \<Rightarrow> ustring" where
  "join sep [] = []"
| "join sep [x] = x"
| "join sep (x # y # ys) = x @ sep @ join sep (y # ys)"

definition invalidJson :: jsError where
  "invalidJson = Error ''Invalid JSON response from Claude''"

text \<open>
  \<open>parseJSONResponse\<close> gives the lines it logs as errors, and the value parsed or the
  error thrown.
\<close>

definition parseJSONResponse ::
  "(ustring \<Rightarrow> ustring + 'v) \<Rightarrow> ustring \<Rightarrow> ustring list \<times> (jsError + 'v)" where
  "parseJSONResponse parse content =
     (case strategy1 parse content of
        Inr v \<Rightarrow> ([], Inr v)
      | Inl e1 \<Rightarrow>
     (case strategy2 parse content of
        Inr v \<Rightarrow> ([], Inr v)
      | Inl e2 \<Rightarrow>
     (case strategy3 parse content of
        Inr v \<Rightarrow> ([], Inr v)
      | Inl e3 \<Rightarrow>
     (case strategy4 parse content of
        Inr v \<Rightarrow> ([], Inr v)
      | Inl e4 \<Rightarrow>
          ([ascii ''Failed to parse Claude JSON response - all strategies failed'',
            ascii ''Strategy errors: '' @ join (ascii '' | '') [e1, e2, e3, e4],
            ascii ''Response content (first 500 chars): '' @ substring content 0 500],
           Inl invalidJson)))))"

text \<open>
  The texts that the four strategies hand to the parser, in order; \<open>None\<close> where a strategy
  finds nothing to hand over. \<open>firstParsed\<close> is the value of the first text that parses.
\<close>

definition candidates :: "ustring \<Rightarrow> ustring option list" where
  "candidates content =
     [map_option trim (codeBlockMatch content), Some (trim content),
      between 123 125 content, between 91 93 content]"

fun firstParsed :: "(ustring \<Rightarrow> ustring + 'v) \<Rightarrow> ustring option list \<Rightarrow> 'v option" where
  "firstParsed parse [] = None"
| "firstParsed parse (None # cs) = firstParsed parse cs"
| "firstParsed parse (Some s # cs) =
     (case parse s of Inr v \<Rightarrow> Some v | Inl m \<Rightarrow> firstParsed parse cs)"

text \<open>A parser that accepts nothing, and one that accepts the text \<open>[1]\<close> and \<open>{}\<close>.\<close>

definition rejectAll :: "ustring \<Rightarrow> ustring + nat" where
  "rejectAll s = Inl (ascii ''Unexpected token'')"

definition tinyParser :: "ustring \<Rightarrow> ustring + nat" where
  "tinyParser s =
     (if s = ascii ''[1]'' then Inr 1 else if s = ascii ''{}'' then Inr 0
      else Inl (ascii ''Unexpected token''))"

section \<open>Dialogue controller: topic input (validation.ts, TelegramController.handleTopicInput)\<close>

definition zeroWidth :: "nat \<Rightarrow> bool" where
  "zeroWidth c \<longleftrightarrow> (8203 \<le> c \<and> c \<le> 8205) \<or> c = 65279"

text \<open>
  \<open>sanitizeInput\<close>. \<open>nfc\<close> is \<open>String.prototype.normalize('NFC')\<close>, a function of the
  language's library.
\<close>

definition sanitizeInput :: "(ustring \<Rightarrow> ustring) \<Rightarrow> ustring \<Rightarrow> ustring" where
  "sanitizeInput nfc input =
     (if input = [] then []
      else nfc (filter (\<lambda>c. \<not> zeroWidth c) (trim input)))"

definition validateTopic :: "ustring \<Rightarrow> topicError + unit" where
  "validateTopic t =
     (if t = [] \<or> length (trim t) = 0 then Inl TopicEmpty
      else if length t < 5 then Inl TopicTooShort
      else if length t > 200 then Inl TopicTooLong
      else Inr ())"

text \<open>
  What \<open>contentService.generateTitles\<close> returns: the titles inside the provider envelope
  (the envelope's \<open>provider\<close> and \<open>tokensUsed\<close> are repeated beside the titles in the
  source).
\<close>

record ArticleTitlesResponse =
  titles :: "ArticleTitle list"

text \<open>\<open>Math.round(ms / 60000)\<close> for a timeout in milliseconds.\<close>

definition roundMinutes :: "nat \<Rightarrow> nat" where
  "roundMinutes ms = (ms + 30000) div 60000"

text \<open>
  \<open>handleTopicInput\<close>. \<open>generate\<close> is what the title stage comes to for a topic and a
  user; \<open>now\<close> is the time of the call and \<open>later\<close> the time at which the title stage
  has answered. The result is the manager afterwards, what was done to the outside world,
  and \<open>Inl\<close> the error thrown on to \<open>handleMessage\<close>. The statistics under the list of
  titles show the provider and the tokens; the cost, a floating-point amount, is left
  out of the message.
\<close>

definition handleTopicInput ::
  "(ustring \<Rightarrow> ustring) \<Rightarrow> nat \<Rightarrow> (ustring \<Rightarrow> string \<Rightarrow> jsError + ArticleTitlesResponse AIResponse)
     \<Rightarrow> ConversationManager \<Rightarrow> int \<Rightarrow> string \<Rightarrow> ustring \<Rightarrow> int \<Rightarrow> int
     \<Rightarrow> ConversationManager \<times> effect list \<times> (jsError + unit)" where
  "handleTopicInput nfc requestTimeout generate m chat uid text now later =
     (let sanitizedTopic = sanitizeInput nfc text
      in case validateTopic sanitizedTopic of
           Inl err \<Rightarrow> (m, [SendMessage chat (TopicRejected err)], Inr ())
         | Inr _ \<Rightarrow>
             (let (lockAcquired, m1) = tryAcquireLock m uid chat Titles now
              in if \<not> lockAcquired
                 then (let (conversation, m2) = getConversation m1 uid chat now
                       in (m2, [SendMessage chat (AlreadyProcessing (processingTask conversation))], Inr ()))
                 else
                   (let m2 = updateConversation m1 uid chat
                               (noUpdate\<lparr> u_topic := Some (Some sanitizedTopic),
                                          u_step := Some WaitingTitleSelection \<rparr>) now;
                        started = [SendTypingAction chat, SendMessage chat (GeneratingTitles sanitizedTopic),
                                   GenerateTitles sanitizedTopic uid]
                    in case generate sanitizedTopic uid of
                         Inr result \<Rightarrow>
                           (let m3 = updateConversation m2 uid chat
                                       (noUpdate\<lparr> u_generatedTitles := Some (Some (titles (data result))) \<rparr>)
                                       later
                            in (releaseLock m3 uid chat later,
                                started @ [SendMessage chat
                                   (TitlesReady (titles (data result)) (provider result) (tokensUsed result))],
                                Inr ()))
                       | Inl error \<Rightarrow>
                           if includesSub (message error) ''timeout''
                           then (releaseLock (resetConversation m2 uid chat) uid chat later,
                                 started @ [SendMessage chat (GenerationTimedOut (roundMinutes requestTimeout))],
                                 Inr ())
                           else (releaseLock m2 uid chat later, started, Inl error))))"

text \<open>A conversation that waits for its topic, and a title stage that must not be reached.\<close>

definition waiting :: ConversationManager where
  "waiting = updateConversation emptyManager ''42'' 7 (noUpdate\<lparr> u_step := Some WaitingTopic \<rparr>) 0"

definition unreachable :: "ustring \<Rightarrow> string \<Rightarrow> jsError + ArticleTitlesResponse AIResponse" where
  "unreachable t uid = Inl (Error ''not reached'')"

text \<open>A title stage whose providers are both overloaded.\<close>

definition titleStageDown :: "ustring \<Rightarrow> string \<Rightarrow> jsError + ArticleTitlesResponse AIResponse" where
  "titleStageDown t uid = Inl (Error ''Claude API error: overloaded'')"

text \<open>
  Modelled from the spec: the number of characters of a text, a surrogate pair of two
  code units being one character. \<open>String.length\<close>, which the source reads, is \<open>length\<close>,
  the number of code units.
\<close>

fun characters :: "ustring \<Rightarrow> nat" where
  "characters [] = 0"
| "characters [c] = 1"
| "characters (hi # lo # cs) =
     (if 55296 \<le> hi \<and> hi \<le> 56319 \<and> 56320 \<le> lo \<and> lo \<le> 57343
      then Suc (characters cs)
      else Suc (characters (lo # cs)))"

text \<open>Three times U+1F600, each a surrogate pair.\<close>

definition threeFaces :: ustring where
  "threeFaces = [55357, 56832, 55357, 56832, 55357, 56832]"

section \<open>Properties of the conversation store\<close>

lemma getKey_example: "getKey ''42'' (- 1001234) = ''42:-1001234''"
  by (simp add: getKey_def string_of_int_def string_of_nat.simps digit_def)

lemma heldBy_getConversation:
  "heldBy key tsk t m \<Longrightarrow> heldBy key tsk t (snd (getConversation m uid cid now))"
  by (auto simp: heldBy_def getConversation_def Let_def split: option.splits)

lemma heldBy_updateConversation:
  "heldBy key tsk t m \<Longrightarrow>
   getKey uid cid \<noteq> key
     \<or> (u_isProcessing updates = None \<and> u_processingTask updates = None \<and> u_lockAcquiredAt updates = None)
   \<Longrightarrow> heldBy key tsk t (updateConversation m uid cid updates now)"
  by (auto simp: heldBy_def updateConversation_def getConversation_def objectAssign_def assign_def
      Let_def split: option.splits)

text \<open>A refused \<open>tryAcquireLock\<close> leaves the holder's task and the time of its lock alone.\<close>

lemma heldBy_tryAcquireLock:
  "heldBy key tsk t m \<Longrightarrow> heldBy key tsk t (snd (tryAcquireLock m uid cid tsk' now))"
  by (auto simp: heldBy_def tryAcquireLock_def getConversation_def Let_def split: option.splits)

lemma tryAcquireLock_heldBy_False:
  "heldBy (getKey uid cid) tsk t m \<Longrightarrow> fst (tryAcquireLock m uid cid tsk' now) = False"
  by (auto simp: heldBy_def tryAcquireLock_def getConversation_def Let_def split: option.splits)

lemma tryAcquireLock_True_heldBy:
  "tryAcquireLock m uid cid tsk now = (True, m') \<Longrightarrow> heldBy (getKey uid cid) tsk now m'"
  by (auto simp: heldBy_def tryAcquireLock_def getConversation_def Let_def split: option.splits if_splits)

lemma heldBy_releaseLock:
  "heldBy key tsk t m \<Longrightarrow> getKey uid cid \<noteq> key \<Longrightarrow> heldBy key tsk t (releaseLock m uid cid now)"
  by (auto simp: heldBy_def releaseLock_def Let_def split: option.splits)

lemma heldBy_resetConversation:
  "heldBy key tsk t m \<Longrightarrow> getKey uid cid \<noteq> key \<Longrightarrow> heldBy key tsk t (resetConversation m uid cid)"
  by (auto simp: heldBy_def resetConversation_def Let_def split: option.splits)

lemma heldBy_cleanup:
  "heldBy key tsk t m \<Longrightarrow> \<not> disturbs key m (now, Cleanup) \<Longrightarrow> heldBy key tsk t (cleanup m now)"
  by (auto simp: heldBy_def cleanup_def split: option.splits)

lemma heldBy_cleanupStaleLocks:
  "heldBy key tsk t m \<Longrightarrow> \<not> disturbs key m (now, CleanupStaleLocks)
   \<Longrightarrow> heldBy key tsk t (cleanupStaleLocks m now)"
  by (auto simp: heldBy_def cleanupStaleLocks_def split: option.splits)

lemma heldBy_cleanupOldLockPromises:
  "heldBy key tsk t m \<Longrightarrow> heldBy key tsk t (cleanupOldLockPromises m now)"
  by (auto simp: heldBy_def cleanupOldLockPromises_def split: option.splits)

lemma heldBy_exec:
  "heldBy key tsk t m \<Longrightarrow> \<not> disturbs key m e \<Longrightarrow> heldBy key tsk t (snd (exec m e))"
proof (cases e)
  case (Pair now ev)
  assume h: "heldBy key tsk t m" and c: "\<not> disturbs key m e"
  show ?thesis
  proof (cases ev)
    case (TryAcquireLock uid cid tsk')
    then show ?thesis using Pair heldBy_tryAcquireLock[OF h, of uid cid tsk' now]
      by (simp add: split_beta)
  next
    case (UpdateConversation uid cid updates)
    with Pair c have "getKey uid cid \<noteq> key
       \<or> (u_isProcessing updates = None \<and> u_processingTask updates = None \<and> u_lockAcquiredAt updates = None)"
      by auto
    from heldBy_updateConversation[OF h this] Pair UpdateConversation show ?thesis by simp
  qed (use Pair h c in \<open>auto intro: heldBy_getConversation heldBy_releaseLock
        heldBy_resetConversation heldBy_cleanup heldBy_cleanupStaleLocks heldBy_cleanupOldLockPromises\<close>)
qed

lemma exec_acquire_heldBy:
  "heldBy key tsk t m \<Longrightarrow> acquireOf key (snd e) \<Longrightarrow> fst (exec m e) = Some False"
proof -
  assume h: "heldBy key tsk t m" and a: "acquireOf key (snd e)"
  obtain now ev where e: "e = (now, ev)" by (cases e)
  from a e obtain uid cid tsk' where ev: "ev = TryAcquireLock uid cid tsk'" and k: "getKey uid cid = key"
    by (cases ev) auto
  from h k have "fst (tryAcquireLock m uid cid tsk' now) = False"
    using tryAcquireLock_heldBy_False by blast
  then show ?thesis by (simp add: e ev split_beta)
qed

lemma heldBy_results:
  "heldBy key tsk t m \<Longrightarrow> undisturbed key m evs \<Longrightarrow>
   (\<forall>(e, r) \<in> set (zip evs (results m evs)). acquireOf key (snd e) \<longrightarrow> r = Some False)
   \<and> heldBy key tsk t (run m evs)"
proof (induction evs arbitrary: m)
  case Nil
  then show ?case by simp
next
  case (Cons e es)
  from Cons.prems have h': "heldBy key tsk t (snd (exec m e))"
    and u': "undisturbed key (snd (exec m e)) es"
    by (auto intro: heldBy_exec)
  from Cons.IH[OF h' u']
  have ih: "\<forall>(e, r) \<in> set (zip es (results (snd (exec m e)) es)). acquireOf key (snd e) \<longrightarrow> r = Some False"
    and hr: "heldBy key tsk t (run (snd (exec m e)) es)" by auto
  have hd: "acquireOf key (snd e) \<longrightarrow> fst (exec m e) = Some False"
    using Cons.prems(1) exec_acquire_heldBy by blast
  from ih hd hr show ?case by auto
qed

text \<open>
  Claim C1, as amended. Once \<open>tryAcquireLock\<close> has returned true for a key, then over
  every history of further calls, for as long as no call ends or rewrites the lock of that
  key (\<open>undisturbed\<close>: no \<open>releaseLock\<close> or \<open>resetConversation\<close> of the key, no
  \<open>updateConversation\<close> of the key that assigns a processing field, no idle sweep that
  evicts the conversation and no stale-lock sweep that reclaims it), every further
  \<open>tryAcquireLock\<close> for that key returns false, and the conversation goes on recording
  the one task that won the lock: \<open>isProcessing\<close> is true, \<open>processingTask\<close> is that task
  and \<open>lockAcquiredAt\<close> the time of its acquisition.
\<close>

theorem lock_exclusive:
  assumes acq: "fst (tryAcquireLock m uid cid tsk now)"
    and und: "undisturbed (getKey uid cid) (snd (tryAcquireLock m uid cid tsk now)) evs"
  shows "(\<forall>(e, r) \<in> set (zip evs (results (snd (tryAcquireLock m uid cid tsk now)) evs)).
            acquireOf (getKey uid cid) (snd e) \<longrightarrow> r = Some False)
       \<and> (\<exists>c. conversations (run (snd (tryAcquireLock m uid cid tsk now)) evs) (getKey uid cid) = Some c
              \<and> isProcessing c = Some True \<and> processingTask c = Some tsk \<and> lockAcquiredAt c = Some now)"
proof -
  let ?m1 = "snd (tryAcquireLock m uid cid tsk now)"
  from acq have eq: "tryAcquireLock m uid cid tsk now = (True, ?m1)" by (simp add: prod_eq_iff)
  then have h: "heldBy (getKey uid cid) tsk now ?m1" by (rule tryAcquireLock_True_heldBy)
  from heldBy_results[OF h und]
  have a: "\<forall>(e, r) \<in> set (zip evs (results ?m1 evs)). acquireOf (getKey uid cid) (snd e) \<longrightarrow> r = Some False"
    and b: "heldBy (getKey uid cid) tsk now (run ?m1 evs)" by auto
  from b have c: "\<exists>c. conversations (run ?m1 evs) (getKey uid cid) = Some c
              \<and> isProcessing c = Some True \<and> processingTask c = Some tsk \<and> lockAcquiredAt c = Some now"
    by (auto simp: heldBy_def split: option.splits)
  from a c show ?thesis by blast
qed

lemmas store_defs = tryAcquireLock_def getConversation_def updateConversation_def releaseLock_def
  resetConversation_def cleanup_def cleanupStaleLocks_def cleanupOldLockPromises_def
  newConversation_def emptyManager_def objectAssign_def assign_def inactive_def staleLock_def
  lockTimeoutMs_def lockPromiseTimeoutMs_def Let_def

text \<open>
  An instance: user 42 in chat 7 acquires the lock for the titles at time 0. Two further
  attempts fail, with an update of the step, a read and both sweeps in between, and the
  conversation still records the titles task and the time 0.
\<close>

theorem lock_exclusive_witness:
  "fst (tryAcquireLock emptyManager ''42'' 7 Titles 0)
   \<and> undisturbed (getKey ''42'' 7) (snd (tryAcquireLock emptyManager ''42'' 7 Titles 0)) busyHistory
   \<and> results (snd (tryAcquireLock emptyManager ''42'' 7 Titles 0)) busyHistory
        = [Some False, None, None, None, None, Some False]
   \<and> map_option processingTask
        (conversations (run (snd (tryAcquireLock emptyManager ''42'' 7 Titles 0)) busyHistory)
           (getKey ''42'' 7)) = Some (Some Titles)
   \<and> map_option lockAcquiredAt
        (conversations (run (snd (tryAcquireLock emptyManager ''42'' 7 Titles 0)) busyHistory)
           (getKey ''42'' 7)) = Some (Some 0)"
proof -
  let ?m1 = "snd (tryAcquireLock emptyManager ''42'' 7 Titles 0)"
  have a: "fst (tryAcquireLock emptyManager ''42'' 7 Titles 0)"
    by (simp add: store_defs)
  have u: "undisturbed (getKey ''42'' 7) ?m1 busyHistory"
    by (simp add: busyHistory_def store_defs noUpdate_def)
  obtain r1 r6 where r: "results ?m1 busyHistory = [r1, None, None, None, None, r6]"
    by (simp add: busyHistory_def split_beta)
  note th = lock_exclusive[OF a u]
  from th
  have "\<forall>(e, r) \<in> set (zip busyHistory (results ?m1 busyHistory)). acquireOf (getKey ''42'' 7) (snd e) \<longrightarrow> r = Some False"
    by blast
  with r have rs: "r1 = Some False" "r6 = Some False"
    by (simp_all add: busyHistory_def)
  from th obtain c where c: "conversations (run ?m1 busyHistory) (getKey ''42'' 7) = Some c"
    "processingTask c = Some Titles" "lockAcquiredAt c = Some 0"
    by auto
  from r rs a u c show ?thesis by simp
qed

text \<open>
  Claim C1 as stated fails: \<open>releaseLock\<close> is not the only call that ends the exclusion.
  After a \<open>resetConversation\<close> (the /cancel command) a second \<open>tryAcquireLock\<close> returns
  true although \<open>releaseLock\<close> was never called.
\<close>

theorem lock_reacquired_after_reset:
  "results emptyManager
     [(0, TryAcquireLock ''42'' 7 Titles), (1, ResetConversation ''42'' 7),
      (2, TryAcquireLock ''42'' 7 Outline)] = [Some True, None, Some True]"
  by (simp add: store_defs)


text \<open>
  Claim C9. For a conversation whose lock was acquired more than 10 minutes (600000 ms)
  before the sweep, \<open>cleanupStaleLocks\<close> clears \<open>isProcessing\<close>, \<open>processingTask\<close> and
  \<open>lockAcquiredAt\<close>, after which \<open>tryAcquireLock\<close> succeeds again, and it leaves \<open>step\<close>,
  \<open>topic\<close>, \<open>generatedTitles\<close>, \<open>selectedTitle\<close> and \<open>generatedOutline\<close> (and the
  identifying \<open>userId\<close>, \<open>chatId\<close>) as they were. The sweep also stamps \<open>lastActivity\<close>
  with the time of the sweep, which the claim does not list among the preserved fields.
\<close>

theorem stale_lock_reclaimed:
  assumes "conversations m (getKey uid cid) = Some c"
    and "isProcessing c = Some True"
    and "lockAcquiredAt c = Some t"
    and "now - t > 600000"
  shows "\<exists>c'. conversations (cleanupStaleLocks m now) (getKey uid cid) = Some c'
           \<and> isProcessing c' = Some False \<and> processingTask c' = None \<and> lockAcquiredAt c' = None
           \<and> userId c' = userId c \<and> chatId c' = chatId c
           \<and> step c' = step c \<and> topic c' = topic c \<and> generatedTitles c' = generatedTitles c
           \<and> selectedTitle c' = selectedTitle c \<and> generatedOutline c' = generatedOutline c
           \<and> fst (tryAcquireLock (cleanupStaleLocks m now) uid cid tsk now')"
  using assms
  by (simp add: cleanupStaleLocks_def staleLock_def lockTimeoutMs_def tryAcquireLock_def
      getConversation_def Let_def)

theorem stale_lock_reclaimed_witness:
  "(let m = emptyManager\<lparr> conversations := [getKey ''42'' 7 \<mapsto> heldConversation] \<rparr>;
        m' = cleanupStaleLocks m 601001
    in conversations m (getKey ''42'' 7) = Some heldConversation
       \<and> isProcessing heldConversation = Some True
       \<and> lockAcquiredAt heldConversation = Some 1000
       \<and> (601001::int) - 1000 > 600000
       \<and> map_option step (conversations m' (getKey ''42'' 7)) = Some WaitingTitleSelection
       \<and> map_option isProcessing (conversations m' (getKey ''42'' 7)) = Some (Some False)
       \<and> fst (tryAcquireLock m' ''42'' 7 Outline 601002))"
proof -
  let ?m = "emptyManager\<lparr> conversations := [getKey ''42'' 7 \<mapsto> heldConversation] \<rparr>"
  have a: "conversations ?m (getKey ''42'' 7) = Some heldConversation" by simp
  have b: "isProcessing heldConversation = Some True" by (simp add: heldConversation_def)
  have c: "lockAcquiredAt heldConversation = Some 1000" by (simp add: heldConversation_def)
  have d: "(601001::int) - 1000 > 600000" by simp
  from stale_lock_reclaimed[OF a b c d, of Outline 601002]
  show ?thesis using a b c by (auto simp: Let_def heldConversation_def)
qed

text \<open>
  Claim C10, as amended. For a pair with no entry in the conversation store,
  \<open>releaseLock\<close> leaves the store as it is, \<open>getConversation\<close> stores and returns a fresh
  entry in step idle, and \<open>updateConversation\<close> stores that fresh idle entry with the
  updates merged into it: its step is idle unless the update assigns a step.
\<close>

theorem absent_release_get_update:
  assumes "conversations m (getKey uid cid) = None"
  shows "conversations (releaseLock m uid cid now) = conversations m
       \<and> fst (getConversation m uid cid now) = newConversation uid cid now
       \<and> conversations (snd (getConversation m uid cid now))
            = (conversations m)(getKey uid cid \<mapsto> newConversation uid cid now)
       \<and> step (newConversation uid cid now) = Idle
       \<and> conversations (updateConversation m uid cid updates now)
            = (conversations m)(getKey uid cid \<mapsto> objectAssign (newConversation uid cid now) updates now)
       \<and> step (objectAssign (newConversation uid cid now) updates now)
            = (case u_step updates of None \<Rightarrow> Idle | Some s \<Rightarrow> s)"
  using assms
  by (simp add: releaseLock_def getConversation_def updateConversation_def Let_def
      newConversation_def objectAssign_def assign_def split: option.splits)

theorem absent_release_get_update_witness:
  "conversations emptyManager (getKey ''42'' 7) = None
   \<and> conversations (releaseLock emptyManager ''42'' 7 5) = Map.empty
   \<and> map_option step (conversations (snd (getConversation emptyManager ''42'' 7 5)) (getKey ''42'' 7)) = Some Idle
   \<and> map_option step (conversations (updateConversation emptyManager ''42'' 7 noUpdate 5) (getKey ''42'' 7)) = Some Idle"
proof -
  have a: "conversations emptyManager (getKey ''42'' 7) = None" by (simp add: emptyManager_def)
  from absent_release_get_update[OF a, of 5 noUpdate]
  show ?thesis using a by (simp add: emptyManager_def noUpdate_def newConversation_def)
qed

text \<open>
  Claim C10 as stated fails for \<open>updateConversation\<close>: on an absent pair, the call that
  the /generate command makes (\<open>{ step: 'waiting_topic' }\<close>) leaves an entry in step
  waiting_topic, not idle.
\<close>

theorem update_absent_not_idle:
  "map_option step (conversations
      (updateConversation emptyManager ''42'' 7 (noUpdate\<lparr> u_step := Some WaitingTopic \<rparr>) 5)
      (getKey ''42'' 7)) = Some WaitingTopic"
  by (simp add: store_defs noUpdate_def)

section \<open>Properties of the rate limiter\<close>

lemma checkLimit_in_window:
  assumes "enabled cfg" "limits uid = Some l" "t - windowStart l < windowDuration"
  shows "checkLimit cfg limits uid t =
     (if requestCount l \<ge> maxRequestsPerMinute cfg
      then (\<lparr> allowed = False, retryAfter = Some (ceilSeconds (windowDuration - (t - windowStart l))) \<rparr>,
            limits(uid \<mapsto> l))
      else (\<lparr> allowed = True, retryAfter = None \<rparr>,
            limits(uid \<mapsto> l\<lparr> requestCount := requestCount l + 1 \<rparr>)))"
  using assms by (simp add: checkLimit_def Let_def)

lemma checkLimit_new_window:
  assumes "enabled cfg" "noOpenWindow limits uid t"
  shows "checkLimit cfg limits uid t =
     (if maxRequestsPerMinute cfg = 0
      then (\<lparr> allowed = False, retryAfter = Some 60 \<rparr>,
            limits(uid \<mapsto> \<lparr> rl_userId = (case limits uid of None \<Rightarrow> uid | Some l \<Rightarrow> rl_userId l),
                             requestCount = 0, windowStart = t \<rparr>))
      else (\<lparr> allowed = True, retryAfter = None \<rparr>,
            limits(uid \<mapsto> \<lparr> rl_userId = (case limits uid of None \<Rightarrow> uid | Some l \<Rightarrow> rl_userId l),
                             requestCount = 1, windowStart = t \<rparr>)))"
  using assms
  by (auto simp: checkLimit_def Let_def noOpenWindow_def windowDuration_def ceilSeconds_def
      split: option.splits)

lemma checkLimit_other_user:
  "uid' \<noteq> uid \<Longrightarrow> snd (checkLimit cfg limits uid' t) uid = limits uid"
  by (simp add: checkLimit_def Let_def)

lemma ceilSeconds_pos: "0 < x \<Longrightarrow> 0 < ceilSeconds x"
  unfolding ceilSeconds_def by linarith

lemma checkLimits_in_window:
  assumes "enabled cfg"
  shows "limits uid = Some l \<Longrightarrow> \<forall>t \<in> set ts. t - windowStart l < windowDuration \<Longrightarrow>
         requestCount l + length ts \<le> maxRequestsPerMinute cfg \<Longrightarrow>
         fst (checkLimits cfg limits uid ts) = replicate (length ts) \<lparr> allowed = True, retryAfter = None \<rparr>
         \<and> snd (checkLimits cfg limits uid ts) uid = Some (l\<lparr> requestCount := requestCount l + length ts \<rparr>)"
proof (induction ts arbitrary: limits l)
  case Nil
  then show ?case by simp
next
  case (Cons t ts)
  let ?l' = "l\<lparr> requestCount := requestCount l + 1 \<rparr>"
  let ?limits' = "limits(uid \<mapsto> ?l')"
  from Cons.prems have step: "checkLimit cfg limits uid t = (\<lparr> allowed = True, retryAfter = None \<rparr>, ?limits')"
    using checkLimit_in_window[OF assms, of limits uid l t] by simp
  have "?limits' uid = Some ?l'" by simp
  moreover from Cons.prems have "\<forall>t \<in> set ts. t - windowStart ?l' < windowDuration" by simp
  moreover from Cons.prems have "requestCount ?l' + length ts \<le> maxRequestsPerMinute cfg" by simp
  ultimately have ih: "fst (checkLimits cfg ?limits' uid ts) = replicate (length ts) \<lparr> allowed = True, retryAfter = None \<rparr>
         \<and> snd (checkLimits cfg ?limits' uid ts) uid = Some (?l'\<lparr> requestCount := requestCount ?l' + length ts \<rparr>)"
    by (rule Cons.IH)
  with step show ?case by (simp add: split_beta)
qed


text \<open>
  Claim C6. Rate limiting is enabled and the configured limit is \<open>N\<close> (the configuration
  accepts limits from 1 to 1000). A user with no open window makes a request at \<open>t0\<close>,
  which opens a window. The first \<open>N\<close> calls of the user within 60 seconds of \<open>t0\<close> are
  all allowed; the next call within the window is refused with a positive \<open>retryAfter\<close>
  and changes nothing; a call at 60 seconds or more after \<open>t0\<close> resets the counter, is
  allowed, and is counted as the first request of a new window starting at that call.
\<close>

theorem rate_limit_window:
  assumes en: "enabled cfg" and N: "maxRequestsPerMinute cfg = N" and pos: "0 < N"
    and fresh: "noOpenWindow limits uid t0"
    and len: "length (t0 # ts) = N"
    and win: "\<forall>t \<in> set ts. t - t0 < 60000"
    and next_in: "t' - t0 < 60000"
    and later: "t'' - t0 \<ge> 60000"
  shows "(let (rs, limits1) = checkLimits cfg limits uid (t0 # ts);
              (r', limits2) = checkLimit cfg limits1 uid t';
              (r'', limits3) = checkLimit cfg limits2 uid t''
          in rs = replicate N \<lparr> allowed = True, retryAfter = None \<rparr>
             \<and> allowed r' = False \<and> (\<exists>s. retryAfter r' = Some s \<and> 0 < s)
             \<and> limits2 = limits1
             \<and> allowed r'' = True
             \<and> map_option requestCount (limits3 uid) = Some 1
             \<and> map_option windowStart (limits3 uid) = Some t'')"
proof -
  let ?ok = "\<lparr> allowed = True, retryAfter = None \<rparr>"
  let ?l0 = "\<lparr> rl_userId = (case limits uid of None \<Rightarrow> uid | Some l \<Rightarrow> rl_userId l),
               requestCount = 1, windowStart = t0 \<rparr>"
  let ?limits0 = "limits(uid \<mapsto> ?l0)"
  from pos N have first: "checkLimit cfg limits uid t0 = (?ok, ?limits0)"
    using checkLimit_new_window[OF en fresh] by simp
  have l0: "?limits0 uid = Some ?l0" by simp
  have w0: "\<forall>t \<in> set ts. t - windowStart ?l0 < windowDuration"
    using win by (simp add: windowDuration_def)
  have c0: "requestCount ?l0 + length ts \<le> maxRequestsPerMinute cfg"
    using len N by simp
  let ?rest = "checkLimits cfg ?limits0 uid ts"
  let ?lN = "?l0\<lparr> requestCount := requestCount ?l0 + length ts \<rparr>"
  from checkLimits_in_window[OF en, of ?limits0 uid ?l0 ts] l0 w0 c0
  have rs: "fst ?rest = replicate (length ts) ?ok" and lN: "snd ?rest uid = Some ?lN"
    by auto
  have full: "requestCount ?lN = N" using len by simp
  have wN: "windowStart ?lN = t0" by simp
  from next_in have inw: "t' - windowStart ?lN < windowDuration"
    by (simp add: windowDuration_def)
  have rej: "checkLimit cfg (snd ?rest) uid t' =
      (\<lparr> allowed = False, retryAfter = Some (ceilSeconds (windowDuration - (t' - t0))) \<rparr>,
       (snd ?rest)(uid \<mapsto> ?lN))"
    using checkLimit_in_window[OF en, of "snd ?rest" uid ?lN t'] lN inw full N by simp
  have same: "(snd ?rest)(uid \<mapsto> ?lN) = snd ?rest"
    using lN by (simp add: fun_upd_idem)
  have "0 < windowDuration - (t' - t0)" using next_in by (simp add: windowDuration_def)
  then have posr: "0 < ceilSeconds (windowDuration - (t' - t0))" by (rule ceilSeconds_pos)
  have exp: "noOpenWindow (snd ?rest) uid t''"
    using lN later by (simp add: noOpenWindow_def windowDuration_def)
  have again: "checkLimit cfg (snd ?rest) uid t'' =
      (?ok, (snd ?rest)(uid \<mapsto> \<lparr> rl_userId = (case snd ?rest uid of None \<Rightarrow> uid | Some l \<Rightarrow> rl_userId l),
                             requestCount = 1, windowStart = t'' \<rparr>))"
    using checkLimit_new_window[OF en exp] pos N by simp
  have rsN: "?ok # fst ?rest = replicate N ?ok"
    using rs len by (cases N) auto
  show ?thesis
    using first rsN rej same posr again by (simp add: split_beta)
qed

text \<open>An instance with a limit of 2: two calls pass, the third must wait 1 second.\<close>

theorem rate_limit_window_witness:
  "(let cfg = \<lparr> enabled = True, maxRequestsPerMinute = 2 \<rparr>;
        (rs, limits1) = checkLimits cfg Map.empty ''42'' [0, 1000];
        (r', limits2) = checkLimit cfg limits1 ''42'' 59001;
        (r'', limits3) = checkLimit cfg limits2 ''42'' 60000
    in enabled cfg \<and> noOpenWindow Map.empty ''42'' 0
       \<and> rs = replicate 2 \<lparr> allowed = True, retryAfter = None \<rparr>
       \<and> allowed r' = False \<and> retryAfter r' = Some 1
       \<and> allowed r'' = True)"
proof -
  let ?cfg = "\<lparr> enabled = True, maxRequestsPerMinute = 2 \<rparr>"
  have en: "enabled ?cfg" by simp
  have N: "maxRequestsPerMinute ?cfg = 2" by simp
  have pos: "(0::nat) < 2" by simp
  have fresh: "noOpenWindow Map.empty ''42'' 0" by (simp add: noOpenWindow_def)
  have len: "length [0::int, 1000] = 2" by simp
  have win: "\<forall>t \<in> set [1000::int]. t - 0 < 60000" by simp
  have nxt: "(59001::int) - 0 < 60000" by simp
  have ltr: "(60000::int) - 0 \<ge> 60000" by simp
  have r1: "retryAfter (fst (checkLimit ?cfg (snd (checkLimits ?cfg Map.empty ''42'' [0, 1000])) ''42'' 59001)) = Some 1"
    by (simp add: checkLimit_def Let_def windowDuration_def ceilSeconds_def)
  note th = rate_limit_window[OF en N pos fresh len win nxt ltr, unfolded Let_def split_beta]
  show ?thesis
    unfolding Let_def split_beta using th r1 en fresh by blast
qed


section \<open>Properties of the provider router\<close>


lemma primary_closed:
  "tryPrimaryProvider lower env p mt tmo =
     (case env p 0 of
        Inr result \<Rightarrow> ([Call p mt tmo], Inr (Some result))
      | Inl error \<Rightarrow>
          if isTransientError lower (message error)
          then ([Call p mt tmo, Sleep 2000, Call p mt tmo],
                case env p 1 of Inr result \<Rightarrow> Inr (Some result) | Inl error2 \<Rightarrow> Inl error2)
          else ([Call p mt tmo], Inl error))"
  unfolding tryPrimaryProvider_def
  by (simp add: primaryLoop.simps split: sum.splits)

lemma retry_closed:
  "tryProviderWithRetry env p mt to 3 =
     (case env p 0 of
        Inr result \<Rightarrow> ([Call p mt to], Inr result)
      | Inl error1 \<Rightarrow>
          (case env p 1 of
             Inr result \<Rightarrow> ([Call p mt to, Sleep 2000, Call p mt to], Inr result)
           | Inl error2 \<Rightarrow>
               ([Call p mt to, Sleep 2000, Call p mt to, Sleep 4000, Call p mt to],
                case env p 2 of Inr result \<Rightarrow> Inr result | Inl error3 \<Rightarrow> Inl error3)))"
  unfolding tryProviderWithRetry_def
  by (simp add: retryLoop.simps split: sum.splits) (auto simp: numeral_2_eq_2)


lemma startsWith_append: "startsWith (s @ t) s"
  by (induction s) auto

lemma includesSub_Nil: "includesSub t []"
  by (cases t) auto

lemma includesSub_prefix: "includesSub (s @ t) s"
proof (cases s)
  case Nil
  then show ?thesis by (simp add: includesSub_Nil)
next
  case (Cons c cs)
  have "startsWith ((c # cs) @ t) (c # cs)" by (rule startsWith_append)
  with Cons show ?thesis by simp
qed

lemma includesSub_append: "includesSub ys sub \<Longrightarrow> includesSub (xs @ ys) sub"
  by (induction xs) auto

lemma includesSub_middle: "includesSub (xs @ s @ zs) s"
  by (rule includesSub_append) (rule includesSub_prefix)

lemma combinedError_embeds:
  "includesSub (message (combinedError p pe b be)) (message pe)
   \<and> includesSub (message (combinedError p pe b be)) (message be)"
proof -
  let ?pre = "''All AI providers failed. '' @ providerName p @ '': ''"
  let ?mid = "'', '' @ providerName b @ '': ''"
  have m: "message (combinedError p pe b be) = ?pre @ message pe @ (?mid @ message be)"
    by (simp add: combinedError_def)
  have m2: "message (combinedError p pe b be) = (?pre @ message pe @ ?mid) @ message be @ []"
    by (simp add: combinedError_def)
  have a: "includesSub (message (combinedError p pe b be)) (message pe)"
    unfolding m by (rule includesSub_middle)
  have b: "includesSub (message (combinedError p pe b be)) (message be)"
    unfolding m2 by (rule includesSub_middle)
  from a b show ?thesis by simp
qed




text \<open>
  Claim C5. When the primary path ends with the error \<open>primaryError\<close>: with the backup
  enabled, the other provider is called up to 3 times, whatever the failures are, with
  pauses of 2000 ms and then 4000 ms between the calls, and if the third call fails too the
  request fails with an error whose message contains the message of \<open>primaryError\<close> and
  the message of the last backup error; with the backup disabled the request fails with
  \<open>primaryError\<close> itself and the backup is never called.
\<close>

theorem backup_policy:
  assumes "snd (tryPrimaryProvider lower env (defaultProvider config) (getMaxTokens config t) (getTimeout config t))
             = Inl primaryError"
  shows "generateJSON lower config env t elapsed =
     (let p = defaultProvider config;
          b = (if p = Claude then OpenRouter else Claude);
          mt = getMaxTokens config t;
          to = getTimeout config t;
          effects1 = fst (tryPrimaryProvider lower env p mt to)
      in if backupAI config
         then (case env b 0 of
                 Inr result \<Rightarrow> (effects1 @ [Call b mt to], Inr (respond result b elapsed))
               | Inl error1 \<Rightarrow>
                   (case env b 1 of
                      Inr result \<Rightarrow>
                        (effects1 @ [Call b mt to, Sleep 2000, Call b mt to],
                         Inr (respond result b elapsed))
                    | Inl error2 \<Rightarrow>
                        (case env b 2 of
                           Inr result \<Rightarrow>
                             (effects1 @ [Call b mt to, Sleep 2000, Call b mt to, Sleep 4000, Call b mt to],
                              Inr (respond result b elapsed))
                         | Inl error3 \<Rightarrow>
                             (effects1 @ [Call b mt to, Sleep 2000, Call b mt to, Sleep 4000, Call b mt to],
                              Inl (combinedError p primaryError b error3)))))
         else (effects1, Inl primaryError))
     \<and> includesSub (message (combinedError (defaultProvider config) primaryError b' error'))
          (message primaryError)
     \<and> includesSub (message (combinedError (defaultProvider config) primaryError b' error'))
          (message error')"
  using assms combinedError_embeds[of "defaultProvider config" primaryError b' error']
  by (simp add: generateJSON_def Let_def split_beta retry_closed split: sum.splits)

text \<open>An instance: both providers fail for good; the error names both failures.\<close>

theorem backup_policy_witness:
  "snd (tryPrimaryProvider asciiLower bothDown (defaultProvider defaultConfig)
          (getMaxTokens defaultConfig TitlesTask) (getTimeout defaultConfig TitlesTask))
     = Inl (Error ''Claude API error: 401 invalid x-api-key'')
   \<and> generateJSON asciiLower defaultConfig bothDown TitlesTask 9000 =
       ([Call Claude 2000 180000, Call OpenRouter 2000 180000, Sleep 2000,
         Call OpenRouter 2000 180000, Sleep 4000, Call OpenRouter 2000 180000],
        Inl (Error (''All AI providers failed. claude: Claude API error: 401 invalid x-api-key, ''
                     @ ''openrouter: OpenRouter API error: 402'')))"
proof -
  have a: "snd (tryPrimaryProvider asciiLower bothDown (defaultProvider defaultConfig)
          (getMaxTokens defaultConfig TitlesTask) (getTimeout defaultConfig TitlesTask))
     = Inl (Error ''Claude API error: 401 invalid x-api-key'')"
    by (simp add: primary_closed bothDown_def defaultConfig_def isTransientError_def
        asciiLower_def asciiLowerChar_def)
  have e: "fst (tryPrimaryProvider asciiLower bothDown Claude 2000 180000) = [Call Claude 2000 180000]"
    by (simp add: primary_closed bothDown_def isTransientError_def asciiLower_def asciiLowerChar_def)
  from backup_policy[OF a, of 9000] e a show ?thesis
    by (simp add: defaultConfig_def truthyOr_def bothDown_def combinedError_def Let_def)
qed


section \<open>Properties of the delivery sender\<close>

lemma webhookAttempt_eq:
  "webhookAttempt url payload post k =
     ([Post url (wp_data payload)],
      if succeeded (post k) then Inr 200 else Inl (thrownBy (post k)))"
  by (auto simp: webhookAttempt_def succeeded_def thrownBy_def rethrow_def split: axiosOutcome.splits)

lemma delivery_closed:
  assumes "validateWebhookPayload payload = Inr ()"
  shows "sendWebhookWithRetry url payload name chat post =
    (if succeeded (post 0) then ([Post url (wp_data payload)], Inr ())
     else if succeeded (post 1)
     then ([Post url (wp_data payload), Delay 3000, Post url (wp_data payload)], Inr ())
     else if succeeded (post 2)
     then ([Post url (wp_data payload), Delay 3000, Post url (wp_data payload), Delay 3000,
            Post url (wp_data payload)], Inr ())
     else if succeeded (post 3)
     then ([Post url (wp_data payload), Delay 3000, Post url (wp_data payload), Delay 3000,
            Post url (wp_data payload), Delay 3000, Post url (wp_data payload)], Inr ())
     else ([Post url (wp_data payload), Delay 3000, Post url (wp_data payload), Delay 3000,
            Post url (wp_data payload), Delay 3000, Post url (wp_data payload),
            SendMessage chat (DeliveryFailedNotice name url 3 (message (thrownBy (post 3))))], Inr ()))"
  using assms
  by (simp add: sendWebhookWithRetry_def withRetry_def orDefault_def webhookAttempt_eq
      withRetryLoop.simps numeral_2_eq_2 numeral_3_eq_3)


text \<open>
  Claim C2. The code departs from the documented interface: the body of a delivery is
  not the documented envelope. For a payload that passes the validation, every delivery
  attempt POSTs to the given URL the payload's \<open>data\<close> member alone, and there is at
  least one attempt. The envelope with its \<open>type\<close>, \<open>userId\<close> and \<open>chatId\<close> is checked
  and not sent.
\<close>

theorem delivery_body:
  assumes "validateWebhookPayload payload = Inr ()"
  shows "posts (fst (sendWebhookWithRetry url payload name chat post)) \<noteq> []
       \<and> set (posts (fst (sendWebhookWithRetry url payload name chat post))) = {(url, wp_data payload)}"
proof -
  note closed = delivery_closed[OF assms, of url name chat post]
  have some: "posts (fst (sendWebhookWithRetry url payload name chat post)) \<noteq> []"
    unfolding closed by simp
  have same: "set (posts (fst (sendWebhookWithRetry url payload name chat post))) = {(url, wp_data payload)}"
    unfolding closed by simp
  from some same show ?thesis by blast
qed

text \<open>
  The failing input: the outline payload, as the controller builds it, passes the
  validation and is delivered at the first attempt to a receiver that answers 200. The
  body of that POST is the object under \<open>data\<close>, which has no \<open>data\<close> member of its own
  and so is not of the documented envelope shape; the envelope around it, which is of
  that shape, is not sent.
\<close>

theorem delivery_body_not_envelope:
  "validateWebhookPayload outlinePayload = Inr ()
   \<and> posts (fst (sendWebhookWithRetry hook outlinePayload ''outline'' 7 accepting))
       = [(hook, wp_data outlinePayload)]
   \<and> \<not> documentedEnvelope (wp_data outlinePayload)
   \<and> documentedEnvelope (envelopeOf outlinePayload)"
proof -
  have v: "validateWebhookPayload outlinePayload = Inr ()"
    by (simp add: validateWebhookPayload_def outlinePayload_def)
  have one: "length (posts (fst (sendWebhookWithRetry hook outlinePayload ''outline'' 7 accepting))) = 1"
    by (simp add: delivery_closed[OF v] succeeded_def accepting_def)
  from delivery_body[OF v, of hook "''outline''" 7 accepting]
  have "set (posts (fst (sendWebhookWithRetry hook outlinePayload ''outline'' 7 accepting)))
          = {(hook, wp_data outlinePayload)}" by simp
  with one have p: "posts (fst (sendWebhookWithRetry hook outlinePayload ''outline'' 7 accepting))
          = [(hook, wp_data outlinePayload)]"
    by (cases "posts (fst (sendWebhookWithRetry hook outlinePayload ''outline'' 7 accepting))") auto
  have n: "\<not> documentedEnvelope (wp_data outlinePayload)"
    by (simp add: documentedEnvelope_def outlinePayload_def)
  have e: "documentedEnvelope (envelopeOf outlinePayload)"
    by (simp add: documentedEnvelope_def envelopeOf_def outlinePayload_def)
  from v p n e show ?thesis by simp
qed

text \<open>
  Claim C3, as amended. For a payload that passes the validation, \<open>sendWebhookWithRetry\<close>
  makes at most 4 delivery attempts, a first one and up to 3 retries, with a pause of
  3000 ms before each retry. An attempt succeeds only on a response with status 200; any
  other response and any rejected request is a failed attempt. When all 4 attempts fail,
  one message is sent to the user, carrying the URL and the last error. In every case the
  call returns normally.
\<close>

theorem delivery_attempts:
  assumes "validateWebhookPayload payload = Inr ()"
  shows "sendWebhookWithRetry url payload name chat post =
    (if succeeded (post 0) then ([Post url (wp_data payload)], Inr ())
     else if succeeded (post 1)
     then ([Post url (wp_data payload), Delay 3000, Post url (wp_data payload)], Inr ())
     else if succeeded (post 2)
     then ([Post url (wp_data payload), Delay 3000, Post url (wp_data payload), Delay 3000,
            Post url (wp_data payload)], Inr ())
     else if succeeded (post 3)
     then ([Post url (wp_data payload), Delay 3000, Post url (wp_data payload), Delay 3000,
            Post url (wp_data payload), Delay 3000, Post url (wp_data payload)], Inr ())
     else ([Post url (wp_data payload), Delay 3000, Post url (wp_data payload), Delay 3000,
            Post url (wp_data payload), Delay 3000, Post url (wp_data payload),
            SendMessage chat (DeliveryFailedNotice name url 3 (message (thrownBy (post 3))))], Inr ()))
    \<and> length (posts (fst (sendWebhookWithRetry url payload name chat post))) \<le> 4
    \<and> length (notifications (fst (sendWebhookWithRetry url payload name chat post)))
        = (if succeeded (post 0) \<or> succeeded (post 1) \<or> succeeded (post 2) \<or> succeeded (post 3)
           then 0 else 1)
    \<and> snd (sendWebhookWithRetry url payload name chat post) = Inr ()"
proof -
  note closed = delivery_closed[OF assms, of url name chat post]
  have bound: "length (posts (fst (sendWebhookWithRetry url payload name chat post))) \<le> 4"
    unfolding closed by simp
  have told: "length (notifications (fst (sendWebhookWithRetry url payload name chat post)))
        = (if succeeded (post 0) \<or> succeeded (post 1) \<or> succeeded (post 2) \<or> succeeded (post 3)
           then 0 else 1)"
    unfolding closed by simp
  have returns: "snd (sendWebhookWithRetry url payload name chat post) = Inr ()"
    unfolding closed by simp
  from closed bound told returns show ?thesis by blast
qed

text \<open>An instance: the server refuses the connection four times.\<close>

theorem delivery_attempts_witness:
  "validateWebhookPayload outlinePayload = Inr ()
   \<and> sendWebhookWithRetry hook outlinePayload ''outline'' 7 refusing
      = ([Post hook (wp_data outlinePayload), Delay 3000, Post hook (wp_data outlinePayload), Delay 3000,
          Post hook (wp_data outlinePayload), Delay 3000, Post hook (wp_data outlinePayload),
          SendMessage 7 (DeliveryFailedNotice ''outline'' hook 3 ''Webhook server connection refused'')],
         Inr ())"
proof -
  have v: "validateWebhookPayload outlinePayload = Inr ()"
    by (simp add: validateWebhookPayload_def outlinePayload_def)
  from delivery_attempts[OF v, of hook "''outline''" 7 refusing] v
  show ?thesis by (simp add: succeeded_def thrownBy_def rethrow_def refusing_def)
qed

text \<open>
  Claim C3 as stated fails: the attempts are not limited to 3. Against a server that
  answers 500 every time, a fourth POST is made before the user is told.
\<close>

theorem delivery_fourth_attempt:
  "validateWebhookPayload outlinePayload = Inr ()
   \<and> length (posts (fst (sendWebhookWithRetry hook outlinePayload ''outline'' 7 failing))) = 4"
proof -
  have v: "validateWebhookPayload outlinePayload = Inr ()"
    by (simp add: validateWebhookPayload_def outlinePayload_def)
  show ?thesis by (simp add: v delivery_closed[OF v] succeeded_def failing_def)
qed


section \<open>Properties of the provider client\<close>

lemmas parse_defs = candidates_def codeBlockMatch_def fenceMatch_def fence_def fenceJson_def ascii_def
  trim_def isWhiteSpace_def between_def indexOf_def lastIndexOf_def substring_def

lemmas strategy_defs = strategy1_def strategy2_def strategy3_def strategy4_def

text \<open>
  Claim C7, as amended. \<open>parseJSONResponse\<close> hands to the parser, in this order, the
  trimmed content of a fenced code block, the whole trimmed text, the text from the first
  opening brace to the last closing brace and the text from the first opening bracket to the
  last closing bracket, each only where it exists, and returns the value of the first
  that parses. When none parses it throws an error with the fixed message
  "Invalid JSON response from Claude"; the first 500 code units of the text are written
  to the error log, not put into the error.
\<close>

theorem parse_strategies:
  "snd (parseJSONResponse parse content) =
     (case firstParsed parse (candidates content) of
        Some v \<Rightarrow> Inr v
      | None \<Rightarrow> Inl (Error ''Invalid JSON response from Claude''))
   \<and> (firstParsed parse (candidates content) = None \<longrightarrow>
        fst (parseJSONResponse parse content) \<noteq> []
        \<and> last (fst (parseJSONResponse parse content))
            = ascii ''Response content (first 500 chars): '' @ take 500 content)"
  by (auto simp: parseJSONResponse_def strategy_defs candidates_def invalidJson_def substring_def
      split: sum.splits option.splits)

text \<open>
  Two instances: a fenced block wins over the brackets further on, and a text that no
  strategy can parse is logged and refused.
\<close>

theorem parse_strategies_witness:
  "snd (parseJSONResponse tinyParser (ascii ''Here: ```json  [1] ``` or {}'')) = Inr 1
   \<and> firstParsed rejectAll (candidates (ascii ''no titles today'')) = None
   \<and> snd (parseJSONResponse rejectAll (ascii ''no titles today''))
       = Inl (Error ''Invalid JSON response from Claude'')
   \<and> last (fst (parseJSONResponse rejectAll (ascii ''no titles today'')))
       = ascii ''Response content (first 500 chars): no titles today''"
proof -
  have c: "candidates (ascii ''Here: ```json  [1] ``` or {}'')
     = [Some (ascii ''[1]''), Some (ascii ''Here: ```json  [1] ``` or {}''), Some (ascii ''{}''),
        Some (ascii ''[1]'')]"
    by (simp add: parse_defs)
  have f: "firstParsed tinyParser (candidates (ascii ''Here: ```json  [1] ``` or {}'')) = Some 1"
    unfolding c by (simp add: tinyParser_def)
  have n: "firstParsed rejectAll (candidates (ascii ''no titles today'')) = None"
    by (simp add: parse_defs rejectAll_def)
  from parse_strategies[of tinyParser "ascii ''Here: ```json  [1] ``` or {}''"] f
  have a: "snd (parseJSONResponse tinyParser (ascii ''Here: ```json  [1] ``` or {}'')) = Inr 1"
    by simp
  from parse_strategies[of rejectAll "ascii ''no titles today''"] n
  have b: "snd (parseJSONResponse rejectAll (ascii ''no titles today''))
       = Inl (Error ''Invalid JSON response from Claude'')"
    and l: "last (fst (parseJSONResponse rejectAll (ascii ''no titles today'')))
       = ascii ''Response content (first 500 chars): '' @ take 500 (ascii ''no titles today'')"
    by simp_all
  have "take 500 (ascii ''no titles today'') = ascii ''no titles today''"
    by (simp add: ascii_def)
  with l have l': "last (fst (parseJSONResponse rejectAll (ascii ''no titles today'')))
       = ascii ''Response content (first 500 chars): no titles today''"
    by (simp add: ascii_def)
  from a n b l' show ?thesis by simp
qed

text \<open>
  Claim C7 as stated fails in its last part: the error thrown carries no sample of the
  text. Two different texts that cannot be parsed are refused with one and the same error.
\<close>

theorem parse_error_without_sample:
  "snd (parseJSONResponse rejectAll (ascii ''Sure, here are ten titles''))
     = Inl (Error ''Invalid JSON response from Claude'')
   \<and> snd (parseJSONResponse rejectAll (ascii ''I cannot help with that''))
     = Inl (Error ''Invalid JSON response from Claude'')"
  by (simp add: parseJSONResponse_def strategy_defs rejectAll_def invalidJson_def
      split: option.splits)


section \<open>Properties of the dialogue controller\<close>

text \<open>
  Claim C8, as amended. \<open>handleTopicInput\<close> is what \<open>handleMessage\<close> calls for the text
  of a message, once admitted, of a conversation in step waiting_topic. When the
  sanitized text (trimmed, zero-width characters stripped, NFC-normalized) is shorter
  than 5 or longer than 200 UTF-16 code units, the length that \<open>String.length\<close> gives, it
  sends the user the validation error and does nothing else: the title stage is not
  called, and the conversation manager is left as it was, so that no lock is acquired
  and the step of the conversation remains waiting_topic.
\<close>

theorem topic_rejected:
  assumes "length (sanitizeInput nfc text) < 5 \<or> length (sanitizeInput nfc text) > 200"
  shows "handleTopicInput nfc requestTimeout generate m chat uid text now later
           = (m,
              [SendMessage chat (TopicRejected
                 (if length (trim (sanitizeInput nfc text)) = 0 then TopicEmpty
                  else if length (sanitizeInput nfc text) < 5 then TopicTooShort
                  else TopicTooLong))],
              Inr ())"
  using assms
  by (auto simp: handleTopicInput_def validateTopic_def Let_def trim_def)

text \<open>An instance: the three letters abc, sent by user 42 in step waiting_topic.\<close>

theorem topic_rejected_witness:
  "length (sanitizeInput id (ascii ''abc'')) < 5
   \<and> map_option step (conversations waiting (getKey ''42'' 7)) = Some WaitingTopic
   \<and> handleTopicInput id 600000 unreachable waiting 7 ''42'' (ascii ''abc'') 1000 2000
       = (waiting, [SendMessage 7 (TopicRejected TopicTooShort)], Inr ())"
proof -
  have s: "sanitizeInput id (ascii ''abc'') = ascii ''abc''"
    by (simp add: sanitizeInput_def ascii_def trim_def isWhiteSpace_def zeroWidth_def)
  have l: "length (sanitizeInput id (ascii ''abc'')) < 5"
    unfolding s by (simp add: ascii_def)
  have w: "map_option step (conversations waiting (getKey ''42'' 7)) = Some WaitingTopic"
    by (simp add: waiting_def store_defs noUpdate_def)
  have t: "length (trim (sanitizeInput id (ascii ''abc''))) \<noteq> 0"
    unfolding s by (simp add: ascii_def trim_def isWhiteSpace_def)
  from topic_rejected[of id "ascii ''abc''" 600000 unreachable waiting 7 "''42''" 1000 2000] l t w
  show ?thesis by simp
qed

text \<open>
  Claim C8 as stated fails when characters are counted: a topic of three characters
  outside the basic plane has six code units. It is sanitized to itself and accepted;
  the lock is taken, the title stage is called, and the conversation leaves step
  waiting_topic.
\<close>

theorem topic_of_three_characters_accepted:
  "characters (sanitizeInput id threeFaces) = 3
   \<and> map_option step (conversations waiting (getKey ''42'' 7)) = Some WaitingTopic
   \<and> fst (tryAcquireLock waiting ''42'' 7 Titles 1000)
   \<and> fst (snd (handleTopicInput id 600000 titleStageDown waiting 7 ''42'' threeFaces 1000 2000))
       = [SendTypingAction 7, SendMessage 7 (GeneratingTitles threeFaces), GenerateTitles threeFaces ''42'']
   \<and> map_option step
        (conversations (fst (handleTopicInput id 600000 titleStageDown waiting 7 ''42'' threeFaces 1000 2000))
           (getKey ''42'' 7)) = Some WaitingTitleSelection"
proof -
  have s: "sanitizeInput id threeFaces = threeFaces"
    by (simp add: sanitizeInput_def threeFaces_def trim_def isWhiteSpace_def zeroWidth_def)
  have c: "characters (sanitizeInput id threeFaces) = 3"
    unfolding s by (simp add: threeFaces_def)
  have w: "map_option step (conversations waiting (getKey ''42'' 7)) = Some WaitingTopic"
    by (simp add: waiting_def store_defs noUpdate_def)
  have l: "fst (tryAcquireLock waiting ''42'' 7 Titles 1000)"
    by (simp add: waiting_def store_defs noUpdate_def)
  have v: "validateTopic threeFaces = Inr ()"
    by (simp add: validateTopic_def threeFaces_def trim_def isWhiteSpace_def)
  have e: "fst (snd (handleTopicInput id 600000 titleStageDown waiting 7 ''42'' threeFaces 1000 2000))
       = [SendTypingAction 7, SendMessage 7 (GeneratingTitles threeFaces), GenerateTitles threeFaces ''42'']"
    using l by (simp add: handleTopicInput_def s v Let_def split_beta titleStageDown_def)
  have t: "map_option step
        (conversations (fst (handleTopicInput id 600000 titleStageDown waiting 7 ''42'' threeFaces 1000 2000))
           (getKey ''42'' 7)) = Some WaitingTitleSelection"
    using l by (simp add: handleTopicInput_def s v Let_def split_beta titleStageDown_def
        waiting_def store_defs noUpdate_def)
  from c w l e t show ?thesis by simp
qed

end
